theory Spec2Isabelle
  imports Main "HOL-Library.Word" "HOL-Library.Sublist"
begin

unbundle bit_operations_syntax

section \<open>Classes\<close>

text \<open>
  \<^verbatim>\<open>type Class uint8\<close> and \<^verbatim>\<open>type OpCode uint32\<close>. The class is the low three
  bits of an opcode.
\<close>

type_synonym Class = "8 word"
type_synonym OpCode = "32 word"

definition classMask :: OpCode where
  "classMask = 0x07"

definition LdClass :: Class where "LdClass = 0x00"
definition LdXClass :: Class where "LdXClass = 0x01"
definition StClass :: Class where "StClass = 0x02"
definition StXClass :: Class where "StXClass = 0x03"
definition ALUClass :: Class where "ALUClass = 0x04"
definition JumpClass :: Class where "JumpClass = 0x05"
definition Jump32Class :: Class where "Jump32Class = 0x06"
definition ALU64Class :: Class where "ALU64Class = 0x07"

definition IsLoad :: "Class \<Rightarrow> bool" where
  "IsLoad cls \<longleftrightarrow> cls = LdClass \<or> cls = LdXClass"

definition IsStore :: "Class \<Rightarrow> bool" where
  "IsStore cls \<longleftrightarrow> cls = StClass \<or> cls = StXClass"

definition isLoadOrStore :: "Class \<Rightarrow> bool" where
  "isLoadOrStore cls \<longleftrightarrow> IsLoad cls \<or> IsStore cls"

definition IsALU :: "Class \<Rightarrow> bool" where
  "IsALU cls \<longleftrightarrow> cls = ALUClass \<or> cls = ALU64Class"

definition IsJump :: "Class \<Rightarrow> bool" where
  "IsJump cls \<longleftrightarrow> cls = JumpClass \<or> cls = Jump32Class"

definition isJumpOrALU :: "Class \<Rightarrow> bool" where
  "isJumpOrALU cls \<longleftrightarrow> IsJump cls \<or> IsALU cls"

section \<open>Opcodes\<close>

definition InvalidOpCode :: OpCode where
  "InvalidOpCode = 0xffff"

text \<open>\<^verbatim>\<open>valid\<close>: all bits of the value are covered by the mask.\<close>

definition valid :: "OpCode \<Rightarrow> OpCode \<Rightarrow> bool" where
  "valid val msk \<longleftrightarrow> val AND NOT msk = 0"

definition Class :: "OpCode \<Rightarrow> Class" where
  "Class op = ucast (op AND classMask)"

text \<open>
  \<^verbatim>\<open>bpfOpCode\<close> is the one operation with an error result:
  \<^verbatim>\<open>fmt.Errorf("invalid opcode %x", op)\<close>, a message fixed by the opcode.
\<close>

datatype error = InvalidOpcodeError OpCode

definition opCodeMask :: OpCode where
  "opCodeMask = 0xff"

definition bpfOpCode :: "OpCode \<Rightarrow> error + 8 word" where
  "bpfOpCode op =
     (if \<not> valid op opCodeMask then Inl (InvalidOpcodeError op)
      else Inr (ucast (op AND opCodeMask)))"

section \<open>Facets declared outside this file\<close>

text \<open>
  The facet types (\<^verbatim>\<open>Mode\<close>, \<^verbatim>\<open>Size\<close>, \<^verbatim>\<open>AtomicOp\<close>, \<^verbatim>\<open>Source\<close>, \<^verbatim>\<open>ALUOp\<close>,
  \<^verbatim>\<open>Endianness\<close>, \<^verbatim>\<open>JumpOp\<close>), their masks, their named values and their
  \<^verbatim>\<open>String\<close> methods are declared in other files of the package. The opcode
  operations below take them as a parameter \<open>K\<close> of type \<open>layout\<close>, and the
  theorems state what they assume of it.
\<close>

text \<open>
  Modelled from the spec: the facet types are unsigned integers that hold their
  mask and their sentinel (section 3, "a sentinel outside the mask"), so the
  conversions \<^verbatim>\<open>T(op & mask)\<close> and \<^verbatim>\<open>OpCode(v)\<close> lose no bit; a facet value is
  carried here at the width of \<^verbatim>\<open>OpCode\<close>.
\<close>

type_synonym Mode = "32 word"
type_synonym Size = "32 word"
type_synonym AtomicOp = "32 word"
type_synonym Source = "32 word"
type_synonym ALUOp = "32 word"
type_synonym Endianness = "32 word"
type_synonym JumpOp = "32 word"

record layout =
  modeMask :: OpCode
  sizeMask :: OpCode
  atomicMask :: OpCode
  sourceMask :: OpCode
  aluMask :: OpCode
  endianMask :: OpCode
  jumpMask :: OpCode
  InvalidMode :: Mode
  ImmMode :: Mode
  AtomicMode :: Mode
  InvalidSize :: Size
  DWord :: Size
  Word :: Size
  Half :: Size
  Byte :: Size
  InvalidAtomic :: AtomicOp
  InvalidSource :: Source
  InvalidALUOp :: ALUOp
  Swap :: ALUOp
  InvalidEndian :: Endianness
  InvalidJumpOp :: JumpOp
  Exit :: JumpOp
  Call :: JumpOp
  Ja :: JumpOp
  modeNames :: "(Mode \<times> string) list"
  atomicNames :: "(AtomicOp \<times> string) list"
  sourceNames :: "(Source \<times> string) list"
  aluNames :: "(ALUOp \<times> string) list"
  endianNames :: "(Endianness \<times> string) list"
  jumpNames :: "(JumpOp \<times> string) list"

section \<open>Accessors\<close>

definition Mode :: "layout \<Rightarrow> OpCode \<Rightarrow> Mode" where
  "Mode K op =
     (if \<not> isLoadOrStore (Class op) then InvalidMode K
      else op AND modeMask K)"

definition Size :: "layout \<Rightarrow> OpCode \<Rightarrow> Size" where
  "Size K op =
     (if \<not> isLoadOrStore (Class op) then InvalidSize K
      else op AND sizeMask K)"

definition AtomicOp :: "layout \<Rightarrow> OpCode \<Rightarrow> AtomicOp" where
  "AtomicOp K op =
     (if Class op \<noteq> StXClass \<or> Mode K op \<noteq> AtomicMode K then InvalidAtomic K
      else op AND atomicMask K)"

definition ALUOp :: "layout \<Rightarrow> OpCode \<Rightarrow> ALUOp" where
  "ALUOp K op =
     (if \<not> IsALU (Class op) then InvalidALUOp K
      else op AND aluMask K)"

definition Source :: "layout \<Rightarrow> OpCode \<Rightarrow> Source" where
  "Source K op =
     (if \<not> isJumpOrALU (Class op) \<or> ALUOp K op = Swap K then InvalidSource K
      else op AND sourceMask K)"

definition Endianness :: "layout \<Rightarrow> OpCode \<Rightarrow> Endianness" where
  "Endianness K op =
     (if ALUOp K op \<noteq> Swap K then InvalidEndian K
      else op AND endianMask K)"

definition JumpOp :: "layout \<Rightarrow> OpCode \<Rightarrow> JumpOp" where
  "JumpOp K op =
     (if \<not> IsJump (Class op) then InvalidJumpOp K
      else let jumpOp = op AND jumpMask K in
        if Class op = Jump32Class \<and> (jumpOp = Exit K \<or> jumpOp = Call K)
        then InvalidJumpOp K
        else jumpOp)"

section \<open>Setters\<close>

definition SetMode :: "layout \<Rightarrow> OpCode \<Rightarrow> Mode \<Rightarrow> OpCode" where
  "SetMode K op mode =
     (if \<not> isLoadOrStore (Class op) \<or> \<not> valid mode (modeMask K) then InvalidOpCode
      else (op AND NOT (modeMask K)) OR mode)"

definition SetSize :: "layout \<Rightarrow> OpCode \<Rightarrow> Size \<Rightarrow> OpCode" where
  "SetSize K op sz =
     (if \<not> isLoadOrStore (Class op) \<or> \<not> valid sz (sizeMask K) then InvalidOpCode
      else (op AND NOT (sizeMask K)) OR sz)"

definition SetAtomicOp :: "layout \<Rightarrow> OpCode \<Rightarrow> AtomicOp \<Rightarrow> OpCode" where
  "SetAtomicOp K op atomic =
     (if Class op \<noteq> StXClass \<or> Mode K op \<noteq> AtomicMode K
         \<or> \<not> valid atomic (atomicMask K)
      then InvalidOpCode
      else (op AND NOT (atomicMask K)) OR atomic)"

definition SetSource :: "layout \<Rightarrow> OpCode \<Rightarrow> Source \<Rightarrow> OpCode" where
  "SetSource K op source =
     (if \<not> isJumpOrALU (Class op) \<or> \<not> valid source (sourceMask K) then InvalidOpCode
      else (op AND NOT (sourceMask K)) OR source)"

definition SetALUOp :: "layout \<Rightarrow> OpCode \<Rightarrow> ALUOp \<Rightarrow> OpCode" where
  "SetALUOp K op alu =
     (if \<not> IsALU (Class op) \<or> \<not> valid alu (aluMask K) then InvalidOpCode
      else (op AND NOT (aluMask K)) OR alu)"

definition SetJumpOp :: "layout \<Rightarrow> OpCode \<Rightarrow> JumpOp \<Rightarrow> OpCode" where
  "SetJumpOp K op jump =
     (if \<not> IsJump (Class op) \<or> \<not> valid jump (jumpMask K) then InvalidOpCode
      else let newOp = (op AND NOT (jumpMask K)) OR jump in
        if JumpOp K newOp = InvalidJumpOp K then InvalidOpCode
        else newOp)"

section \<open>Two-slot instructions\<close>

text \<open>
  Modelled from the spec: \<^verbatim>\<open>LoadImmOp\<close> is declared outside this file. Section 4.7
  gives it the class \<^verbatim>\<open>Ld\<close>, the mode Immediate and the size passed in, built with
  the setters.
\<close>

definition LoadImmOp :: "layout \<Rightarrow> Size \<Rightarrow> OpCode" where
  "LoadImmOp K sz = SetSize K (SetMode K (ucast LdClass) (ImmMode K)) sz"

definition IsDWordLoad :: "layout \<Rightarrow> OpCode \<Rightarrow> bool" where
  "IsDWordLoad K op \<longleftrightarrow> op = LoadImmOp K (DWord K)"

definition rawInstructions :: "layout \<Rightarrow> OpCode \<Rightarrow> int" where
  "rawInstructions K op = (if IsDWordLoad K op then 2 else 1)"

section \<open>Mnemonics\<close>

text \<open>
  Decimal and hexadecimal digits of a number, as \<^verbatim>\<open>strconv.FormatInt(n, 10)\<close> and
  the verb \<^verbatim>\<open>%#x\<close> on a \<^verbatim>\<open>uint8\<close> print them.
\<close>

definition digit :: "nat \<Rightarrow> char" where
  "digit d = ''0123456789abcdef'' ! d"

function decimal :: "nat \<Rightarrow> string" where
  "decimal n = (if n < 10 then [digit n] else decimal (n div 10) @ [digit (n mod 10)])"
  by pat_completeness auto
termination
  by (relation "measure id") auto

function hex :: "nat \<Rightarrow> string" where
  "hex n = (if n < 16 then [digit n] else hex (n div 16) @ [digit (n mod 16)])"
  by pat_completeness auto
termination
  by (relation "measure id") auto

definition hex8 :: "8 word \<Rightarrow> string" where
  "hex8 b =
     (if unat b < 16 then [digit (unat b)]
      else [digit (unat b div 16), digit (unat b mod 16)])"

text \<open>\<^verbatim>\<open>strings.TrimSuffix\<close>: the string without the suffix when it ends with it.\<close>

definition TrimSuffix :: "string \<Rightarrow> string \<Rightarrow> string" where
  "TrimSuffix s suf = (if suffix suf s then take (length s - length suf) s else s)"

text \<open>
  Modelled from the spec: the \<^verbatim>\<open>String\<close> methods of \<^verbatim>\<open>Class\<close> and of the facet
  types other than \<^verbatim>\<open>AtomicOp\<close> are generated (\<^verbatim>\<open>go:generate stringer\<close>) into files
  that are not part of the sources at hand. A named value prints as its identifier (section 4.2: "the
  variant name with suffix Class"); any other value prints in the generator's
  default form \<^verbatim>\<open>T(n)\<close>, with \<open>n\<close> in decimal.
\<close>

definition nameOf :: "string \<Rightarrow> ('a::len word \<times> string) list \<Rightarrow> 'a word \<Rightarrow> string" where
  "nameOf T names v =
     (case map_of names v of
        Some s \<Rightarrow> s
      | None \<Rightarrow> T @ ''('' @ decimal (unat v) @ '')'')"

definition classNames :: "(Class \<times> string) list" where
  "classNames =
     [(LdClass, ''LdClass''), (LdXClass, ''LdXClass''), (StClass, ''StClass''),
      (StXClass, ''StXClass''), (ALUClass, ''ALUClass''), (JumpClass, ''JumpClass''),
      (Jump32Class, ''Jump32Class''), (ALU64Class, ''ALU64Class'')]"

definition ClassString :: "Class \<Rightarrow> string" where
  "ClassString cls = nameOf ''Class'' classNames cls"

definition ModeString :: "layout \<Rightarrow> Mode \<Rightarrow> string" where
  "ModeString K v = nameOf ''Mode'' (modeNames K) v"

text \<open>
  Modelled from the spec: the \<^verbatim>\<open>String\<close> method of \<^verbatim>\<open>AtomicOp\<close> is written by hand in
  a file that is not part of the sources at hand. A named operation prints as its
  name; any other value prints as \<^verbatim>\<open>AtomicOp(0x..)\<close>, in hexadecimal (the verb \<^verbatim>\<open>%#x\<close>).
\<close>

definition AtomicOpString :: "layout \<Rightarrow> AtomicOp \<Rightarrow> string" where
  "AtomicOpString K v =
     (case map_of (atomicNames K) v of
        Some s \<Rightarrow> s
      | None \<Rightarrow> ''AtomicOp(0x'' @ hex (unat v) @ '')'')"

definition SourceString :: "layout \<Rightarrow> Source \<Rightarrow> string" where
  "SourceString K v = nameOf ''Source'' (sourceNames K) v"

definition ALUOpString :: "layout \<Rightarrow> ALUOp \<Rightarrow> string" where
  "ALUOpString K v = nameOf ''ALUOp'' (aluNames K) v"

definition EndiannessString :: "layout \<Rightarrow> Endianness \<Rightarrow> string" where
  "EndiannessString K v = nameOf ''Endianness'' (endianNames K) v"

definition JumpOpString :: "layout \<Rightarrow> JumpOp \<Rightarrow> string" where
  "JumpOpString K v = nameOf ''JumpOp'' (jumpNames K) v"

text \<open>The size suffix: the \<^verbatim>\<open>switch op.Size()\<close> of \<^verbatim>\<open>String\<close>, first match wins.\<close>

definition sizeSuffix :: "layout \<Rightarrow> Size \<Rightarrow> string" where
  "sizeSuffix K sz =
     (if sz = DWord K then ''DW''
      else if sz = Word K then ''W''
      else if sz = Half K then ''H''
      else if sz = Byte K then ''B''
      else [])"

definition String :: "layout \<Rightarrow> OpCode \<Rightarrow> string" where
  "String K op =
     (let class = Class op in
      if isLoadOrStore class then
        TrimSuffix (ClassString class) ''Class''
        @ TrimSuffix (ModeString K (Mode K op)) ''Mode''
        @ (if AtomicOp K op \<noteq> InvalidAtomic K
           then TrimSuffix (AtomicOpString K (AtomicOp K op)) ''Atomic'' else [])
        @ sizeSuffix K (Size K op)
      else if IsALU class then
        (if ALUOp K op = Swap K \<and> Class op = ALU64Class then ''B'' else [])
        @ ALUOpString K (ALUOp K op)
        @ (if ALUOp K op = Swap K
           then (if Class op = ALUClass
                 then EndiannessString K (Endianness K op) else [])
           else TrimSuffix (SourceString K (Source K op)) ''Source''
                @ (if class = ALUClass then ''32'' else []))
      else if IsJump class then
        JumpOpString K (JumpOp K op)
        @ (if class = Jump32Class then ''32'' else [])
        @ (if JumpOp K op \<noteq> Exit K \<and> JumpOp K op \<noteq> Call K \<and> JumpOp K op \<noteq> Ja K
           then TrimSuffix (SourceString K (Source K op)) ''Source'' else [])
      else ''OpCode(0x'' @ hex8 (ucast op) @ '')'')"

section \<open>The kernel's encoding\<close>

text \<open>
  Modelled from the spec: the values of the constants that the other files of the
  package declare. Section 3 places the fields (mode in bits 5 to 7, size in bits 3
  and 4, source and endianness in bit 3, jump operation in the mask \<^verbatim>\<open>0xF0\<close>) and
  names their values; section 6 fixes the numbers as those of the kernel's uapi
  headers and the sentinels as constants outside their masks. Two fields reach
  above the low byte, as the layout comment of \<^verbatim>\<open>OpCode\<close> draws them: the ALU
  operation, with the mask \<^verbatim>\<open>0x3ff0\<close> (section 4.5 has its part within the low byte,
  \<^verbatim>\<open>0xF0\<close>), and the atomic operation, in bits 8 to 16, which holds the kernel's
  code of the operation. The names are the ones the mnemonics are built from.
  ALU operations with a bit above the low byte and atomic operations with bit 16
  are given no name here, and no statement below reads the name of one.
\<close>

definition uapi :: layout where
  "uapi = \<lparr>
     modeMask = 0xe0, sizeMask = 0x18, atomicMask = 0x1ff00, sourceMask = 0x08,
     aluMask = 0x3ff0, endianMask = 0x08, jumpMask = 0xf0,
     InvalidMode = 0xff, ImmMode = 0x00, AtomicMode = 0xc0,
     InvalidSize = 0xff, DWord = 0x18, Word = 0x00, Half = 0x08, Byte = 0x10,
     InvalidAtomic = 0xffffffff,
     InvalidSource = 0xffff,
     InvalidALUOp = 0xffff, Swap = 0xd0,
     InvalidEndian = 0xff,
     InvalidJumpOp = 0xff, Exit = 0x90, Call = 0x80, Ja = 0x00,
     modeNames =
       [(0x00, ''ImmMode''), (0x20, ''AbsMode''), (0x40, ''IndMode''), (0x60, ''MemMode''),
        (0x80, ''MemSXMode''), (0xc0, ''AtomicMode''), (0xff, ''InvalidMode'')],
     atomicNames =
       [(0x0000, ''AddAtomic''), (0x5000, ''AndAtomic''), (0x4000, ''OrAtomic''),
        (0xa000, ''XorAtomic''), (0x0100, ''FetchAdd''), (0x5100, ''FetchAnd''),
        (0x4100, ''FetchOr''), (0xa100, ''FetchXor''), (0xe100, ''Xchg''),
        (0xf100, ''CmpXchg'')],
     sourceNames =
       [(0x00, ''ImmSource''), (0x08, ''RegSource''), (0xffff, ''InvalidSource'')],
     aluNames =
       [(0x00, ''Add''), (0x10, ''Sub''), (0x20, ''Mul''), (0x30, ''Div''), (0x40, ''Or''),
        (0x50, ''And''), (0x60, ''LSh''), (0x70, ''RSh''), (0x80, ''Neg''), (0x90, ''Mod''),
        (0xa0, ''Xor''), (0xb0, ''Mov''), (0xc0, ''ArSh''), (0xd0, ''Swap''),
        (0xffff, ''InvalidALUOp'')],
     endianNames =
       [(0x00, ''LE''), (0x08, ''BE''), (0xff, ''InvalidEndian'')],
     jumpNames =
       [(0x00, ''Ja''), (0x10, ''JEq''), (0x20, ''JGT''), (0x30, ''JGE''), (0x40, ''JSet''),
        (0x50, ''JNE''), (0x60, ''JSGT''), (0x70, ''JSGE''), (0x80, ''Call''),
        (0x90, ''Exit''), (0xa0, ''JLT''), (0xb0, ''JLE''), (0xc0, ''JSLT''),
        (0xd0, ''JSLE''), (0xff, ''InvalidJumpOp'')]
   \<rparr>"

section \<open>What a mnemonic may contain\<close>

text \<open>
  What section 8 asks of a mnemonic, with the two exceptions the renderer makes.
  The words \<open>Class\<close> and \<open>Source\<close> do not occur in it. \<open>Mode\<close> occurs exactly in
  the mnemonics of loads and stores whose mode has no name. \<open>Atomic\<close> occurs exactly
  in the mnemonics of loads and stores in atomic mode; in that of an atomic store
  with a named atomic operation it occurs once, as the mode, and nowhere after.
\<close>

definition mnemonic_clean :: "layout \<Rightarrow> OpCode \<Rightarrow> bool" where
  "mnemonic_clean K op \<longleftrightarrow>
     \<not> sublist ''Class'' (String K op) \<and> \<not> sublist ''Source'' (String K op)
     \<and> (sublist ''Mode'' (String K op)
          \<longleftrightarrow> isLoadOrStore (Class op) \<and> map_of (modeNames K) (Mode K op) = None)
     \<and> (sublist ''Atomic'' (String K op)
          \<longleftrightarrow> isLoadOrStore (Class op) \<and> Mode K op = AtomicMode K)
     \<and> (Class op = StXClass \<and> Mode K op = AtomicMode K
          \<and> map_of (atomicNames K) (AtomicOp K op) \<noteq> None \<longrightarrow>
            take 9 (String K op) = ''StXAtomic''
            \<and> \<not> sublist ''Atomic'' (drop 9 (String K op)))"

section \<open>Bit fields\<close>

lemmas class_defs =
  LdClass_def LdXClass_def StClass_def StXClass_def
  ALUClass_def JumpClass_def Jump32Class_def ALU64Class_def

lemmas pred_defs =
  IsLoad_def IsStore_def isLoadOrStore_def IsALU_def IsJump_def isJumpOrALU_def

text \<open>Replacing a field leaves every field outside its mask as it was.\<close>

lemma field_update_other:
  fixes op :: "'a::len word"
  assumes "m AND c = 0" and "v AND NOT m = 0"
  shows "((op AND NOT m) OR v) AND c = op AND c"
proof (rule bit_eqI)
  fix n
  from assms(1) have a: "\<not> (bit m n \<and> bit c n)"
    by (metis bit_and_iff bit_0_eq bot_apply bot_bool_def)
  from assms(2) have b: "bit v n \<Longrightarrow> bit m n"
    by (metis bit_and_iff bit_not_iff bit_0_eq bot_apply bot_bool_def bit_imp_possible_bit)
  show "bit (((op AND NOT m) OR v) AND c) n = bit (op AND c) n"
    using a b by (auto simp: bit_and_iff bit_or_iff bit_not_iff dest: bit_imp_le_length)
qed

text \<open>Writing back what was read changes nothing.\<close>

lemma field_roundtrip:
  fixes op :: "'a::len word"
  shows "(op AND NOT m) OR (op AND m) = op"
  by (rule bit_eqI) (auto simp: bit_and_iff bit_or_iff bit_not_iff bit_imp_possible_bit)

text \<open>A value that fits the mask is read back as written.\<close>

lemma field_read_back:
  fixes op :: "'a::len word"
  assumes "v AND NOT m = 0"
  shows "((op AND NOT m) OR v) AND m = v"
proof (rule bit_eqI)
  fix n
  from assms have b: "bit v n \<Longrightarrow> bit m n"
    by (metis bit_and_iff bit_not_iff bit_0_eq bot_apply bot_bool_def bit_imp_possible_bit)
  show "bit (((op AND NOT m) OR v) AND m) n = bit v n"
    using b by (auto simp: bit_and_iff bit_or_iff bit_not_iff bit_imp_possible_bit)
qed

lemma and_mask_valid: "valid (op AND m) m"
  unfolding valid_def
  by (rule bit_eqI) (auto simp: bit_and_iff bit_or_iff bit_not_iff bit_imp_possible_bit)


text \<open>The low byte: an opcode fits \<^verbatim>\<open>0xff\<close> when nothing is left above bit 7.\<close>

lemma fits_low_byte: "op AND NOT (mask 8) = 0 \<longleftrightarrow> drop_bit 8 op = 0" for op :: OpCode
proof -
  have L: "bit op n \<Longrightarrow> n < 32" for n
    by (auto dest: bit_imp_le_length)
  have a: "(op AND NOT (mask 8) = 0) = (\<forall>n. \<not> (bit op n \<and> 8 \<le> n))"
    by (auto simp: bit_eq_iff bit_and_iff bit_not_iff bit_mask_iff) (meson L leD)
  have b: "(drop_bit 8 op = 0) = (\<forall>n. \<not> bit op (8 + n))"
  proof -
    have "n < 32" if "bit op (8 + n)" for n
      using L [OF that] by simp
    then show ?thesis
      by (auto simp: bit_eq_iff bit_drop_bit_eq)
  qed
  have "(\<forall>n. \<not> (bit op n \<and> 8 \<le> n)) = (\<forall>n. \<not> bit op (8 + n))"
    by (metis le_add1 le_Suc_ex)
  with a b show ?thesis by simp
qed

lemma valid_opCodeMask_iff: "valid op opCodeMask \<longleftrightarrow> drop_bit 8 op = 0"
proof -
  have e: "opCodeMask = mask 8" by (simp add: opCodeMask_def mask_eq_exp_minus_1)
  show ?thesis unfolding valid_def e by (rule fits_low_byte)
qed

lemma low_byte_cast: "ucast (op AND opCodeMask) = (ucast op :: 8 word)" for op :: OpCode
proof -
  have e: "opCodeMask = mask 8" by (simp add: opCodeMask_def mask_eq_exp_minus_1)
  show ?thesis
    unfolding e by (rule bit_eqI) (auto simp: bit_simps)
qed

lemma low_byte_value: "unat (ucast op :: 8 word) = unat op mod 256" for op :: OpCode
  using unsigned_ucast_eq [where 'c = 8 and 'a = nat and w = op]
  by (simp add: take_bit_eq_mod)

lemma low_byte_exact:
  "drop_bit 8 op = 0 \<Longrightarrow> ucast (ucast op :: 8 word) = op" for op :: OpCode
proof -
  assume d: "drop_bit 8 op = 0"
  have "(ucast (ucast op :: 8 word) :: 32 word) = take_bit 8 op"
    using unsigned_ucast_eq [where 'c = 8 and 'a = "32 word" and w = op] by simp
  with d show ?thesis by (simp add: take_bit_eq_self_iff_drop_bit_eq_0)
qed

text \<open>Replacing a field that lies outside the class bits keeps the class.\<close>

lemma Class_field_update:
  "m AND classMask = 0 \<Longrightarrow> valid v m \<Longrightarrow> Class ((op AND NOT m) OR v) = Class op"
  unfolding Class_def valid_def by (simp add: field_update_other)

text \<open>The constants of the kernel's encoding, field by field.\<close>

lemma uapi_masks:
  "modeMask uapi = 0xe0" "sizeMask uapi = 0x18" "atomicMask uapi = 0x1ff00"
  "sourceMask uapi = 0x08" "aluMask uapi = 0x3ff0" "endianMask uapi = 0x08"
  "jumpMask uapi = 0xf0"
  by (simp_all add: uapi_def)

lemma uapi_values:
  "InvalidMode uapi = 0xff" "ImmMode uapi = 0x00" "AtomicMode uapi = 0xc0"
  "InvalidSize uapi = 0xff" "DWord uapi = 0x18" "Word uapi = 0x00" "Half uapi = 0x08"
  "Byte uapi = 0x10" "InvalidAtomic uapi = 0xffffffff" "InvalidSource uapi = 0xffff"
  "InvalidALUOp uapi = 0xffff" "Swap uapi = 0xd0" "InvalidEndian uapi = 0xff"
  "InvalidJumpOp uapi = 0xff" "Exit uapi = 0x90" "Call uapi = 0x80" "Ja uapi = 0x00"
  by (simp_all add: uapi_def)

text \<open>A value that fits a mask is unchanged by it, and untouched by a disjoint mask.\<close>

lemma valid_and_mask:
  assumes "valid v m"
  shows "v AND m = v"
proof (rule bit_eqI)
  fix n
  from assms have "bit v n \<Longrightarrow> bit m n"
    unfolding valid_def
    by (metis bit_and_iff bit_not_iff bit_0_eq bot_apply bot_bool_def bit_imp_possible_bit)
  then show "bit (v AND m) n = bit v n"
    by (auto simp: bit_and_iff)
qed

lemma valid_and_not_other:
  assumes "valid v m" and "m AND c = 0"
  shows "v AND NOT c = v"
proof (rule bit_eqI)
  fix n
  from assms(1) have a: "bit v n \<Longrightarrow> bit m n"
    unfolding valid_def
    by (metis bit_and_iff bit_not_iff bit_0_eq bot_apply bot_bool_def bit_imp_possible_bit)
  from assms(2) have b: "\<not> (bit m n \<and> bit c n)"
    by (metis bit_and_iff bit_0_eq bot_apply bot_bool_def)
  show "bit (v AND NOT c) n = bit v n"
    using a b bit_imp_le_length [of v n] by (auto simp: bit_and_iff bit_not_iff)
qed

lemma Class_zero: "Class 0 = LdClass"
  by (simp add: Class_def LdClass_def)

lemma Class_LdClass_iff: "Class op = LdClass \<longleftrightarrow> op AND classMask = 0"
proof
  assume c: "Class op = LdClass"
  have "op AND 7 \<le> 7" by (rule word_and_le1)
  then have "unat (op AND 7) < 2 ^ 8" by (simp add: word_le_nat_alt)
  then have "drop_bit 8 (op AND 7) = 0"
    by (simp add: drop_bit_eq_div unat_eq_zero [symmetric] unat_div)
  then have "ucast (ucast (op AND 7) :: 8 word) = op AND 7"
    by (rule low_byte_exact)
  with c show "op AND classMask = 0"
    by (simp add: Class_def classMask_def LdClass_def)
next
  assume "op AND classMask = 0"
  then show "Class op = LdClass"
    by (simp add: Class_def LdClass_def)
qed

section \<open>Jump operations of the 32-bit jump class\<close>

text \<open>
  C1, as stated, also makes \<^verbatim>\<open>Ja\<close> invalid on \<^verbatim>\<open>Jump32Class\<close>. \<^verbatim>\<open>JumpOp\<close> tests
  \<^verbatim>\<open>jumpOp == Exit || jumpOp == Call\<close> only: on the opcode \<^verbatim>\<open>0x06\<close> (class
  \<^verbatim>\<open>Jump32Class\<close>, jump field \<^verbatim>\<open>Ja\<close>) it returns \<^verbatim>\<open>Ja\<close>, and setting \<^verbatim>\<open>Ja\<close> on
  \<^verbatim>\<open>0x16\<close> succeeds with \<^verbatim>\<open>0x06\<close>.
\<close>

theorem Jump32_Ja_counterexample:
  "Class 0x06 = Jump32Class \<and> 0x06 AND jumpMask uapi = Ja uapi
   \<and> JumpOp uapi 0x06 = Ja uapi \<and> JumpOp uapi 0x06 \<noteq> InvalidJumpOp uapi
   \<and> Class 0x16 = Jump32Class \<and> SetJumpOp uapi 0x16 (Ja uapi) = 0x06
   \<and> SetJumpOp uapi 0x16 (Ja uapi) \<noteq> InvalidOpCode"
  by (simp add: SetJumpOp_def JumpOp_def Let_def valid_def Class_def classMask_def
      pred_defs class_defs uapi_masks uapi_values InvalidOpCode_def)

text \<open>
  C1, amended. For every opcode of class \<^verbatim>\<open>Jump32Class\<close>, the jump operations
  \<^verbatim>\<open>Exit\<close> and \<^verbatim>\<open>Call\<close> are invalid: \<^verbatim>\<open>JumpOp\<close> returns \<^verbatim>\<open>InvalidJumpOp\<close> when the
  jump field holds \<^verbatim>\<open>Exit\<close> or \<^verbatim>\<open>Call\<close>, and \<^verbatim>\<open>SetJumpOp\<close> returns \<^verbatim>\<open>InvalidOpCode\<close>
  for \<^verbatim>\<open>Exit\<close> and for \<^verbatim>\<open>Call\<close>. \<^verbatim>\<open>Ja\<close> is not rejected: \<^verbatim>\<open>JumpOp\<close> returns it, and
  \<^verbatim>\<open>SetJumpOp\<close> stores it in the jump field. The jump mask is assumed to lie
  outside the class bits, as the layout comment of \<^verbatim>\<open>OpCode\<close> draws it.
\<close>

theorem Jump32_rejects_Exit_Call:
  assumes "jumpMask K AND classMask = 0" and "Class op = Jump32Class"
  shows "(op AND jumpMask K = Exit K \<or> op AND jumpMask K = Call K \<longrightarrow>
            JumpOp K op = InvalidJumpOp K)
    \<and> SetJumpOp K op (Exit K) = InvalidOpCode
    \<and> SetJumpOp K op (Call K) = InvalidOpCode
    \<and> (op AND jumpMask K = Ja K \<and> Ja K \<noteq> Exit K \<and> Ja K \<noteq> Call K \<longrightarrow>
            JumpOp K op = Ja K)
    \<and> (valid (Ja K) (jumpMask K) \<and> Ja K \<noteq> Exit K \<and> Ja K \<noteq> Call K
         \<and> Ja K \<noteq> InvalidJumpOp K \<longrightarrow>
            SetJumpOp K op (Ja K) = (op AND NOT (jumpMask K)) OR Ja K)"
proof -
  have J: "IsJump (Class op)"
    using assms(2) by (simp add: IsJump_def)
  have new: "Class ((op AND NOT (jumpMask K)) OR j) = Jump32Class
      \<and> ((op AND NOT (jumpMask K)) OR j) AND jumpMask K = j"
    if "valid j (jumpMask K)" for j
    using that assms by (simp add: Class_field_update field_read_back valid_def)
  have rej: "SetJumpOp K op j = InvalidOpCode" if "j = Exit K \<or> j = Call K" for j
  proof (cases "valid j (jumpMask K)")
    case True
    with new [OF True] that show ?thesis
      by (auto simp: SetJumpOp_def JumpOp_def Let_def IsJump_def)
  next
    case False
    then show ?thesis by (simp add: SetJumpOp_def)
  qed
  have ja: "SetJumpOp K op (Ja K) = (op AND NOT (jumpMask K)) OR Ja K"
    if "valid (Ja K) (jumpMask K)" "Ja K \<noteq> Exit K" "Ja K \<noteq> Call K"
      "Ja K \<noteq> InvalidJumpOp K"
    using new [OF that(1)] that J
    by (simp add: SetJumpOp_def JumpOp_def Let_def IsJump_def)
  show ?thesis
    using J assms(2) rej ja by (auto simp: JumpOp_def Let_def)
qed

text \<open>
  On the 32-bit jump \<^verbatim>\<open>0x16\<close>: neither \<^verbatim>\<open>Exit\<close> nor \<^verbatim>\<open>Call\<close> can be set, \<^verbatim>\<open>Ja\<close> can;
  \<^verbatim>\<open>0x96\<close>, whose jump field holds \<^verbatim>\<open>Exit\<close>, reads as \<^verbatim>\<open>InvalidJumpOp\<close>.
\<close>

theorem Jump32_rejects_Exit_Call_witness:
  "jumpMask uapi AND classMask = 0 \<and> Class 0x16 = Jump32Class \<and> Class 0x96 = Jump32Class
   \<and> Class 0x06 = Jump32Class
   \<and> 0x96 AND jumpMask uapi = Exit uapi \<and> JumpOp uapi 0x96 = InvalidJumpOp uapi
   \<and> SetJumpOp uapi 0x16 (Exit uapi) = InvalidOpCode
   \<and> SetJumpOp uapi 0x16 (Call uapi) = InvalidOpCode
   \<and> 0x06 AND jumpMask uapi = Ja uapi \<and> JumpOp uapi 0x06 = Ja uapi
   \<and> valid (Ja uapi) (jumpMask uapi) \<and> SetJumpOp uapi 0x16 (Ja uapi) = 0x06"
proof -
  have h: "jumpMask uapi AND classMask = 0"
    by (simp add: uapi_masks classMask_def)
  have c: "Class 0x16 = Jump32Class" "Class 0x96 = Jump32Class" "Class 0x06 = Jump32Class"
    by (simp_all add: Class_def classMask_def class_defs)
  show ?thesis
    using h c Jump32_rejects_Exit_Call [OF h c(1)] Jump32_rejects_Exit_Call [OF h c(2)]
      Jump32_rejects_Exit_Call [OF h c(3)]
    by (simp add: uapi_masks uapi_values valid_def)
qed

section \<open>The number of raw instructions\<close>

text \<open>
  In a layout where mode, size and class occupy separate bits and the two values
  fit their masks, \<^verbatim>\<open>LoadImmOp(DWord)\<close> is the opcode of class \<^verbatim>\<open>LdClass\<close> with mode
  \<^verbatim>\<open>ImmMode\<close> and size \<^verbatim>\<open>DWord\<close>.
\<close>

lemma LoadImmOp_DWord_value:
  assumes "modeMask K AND classMask = 0" and "sizeMask K AND classMask = 0"
    and "modeMask K AND sizeMask K = 0"
    and "valid (ImmMode K) (modeMask K)" and "valid (DWord K) (sizeMask K)"
  shows "LoadImmOp K (DWord K) = ImmMode K OR DWord K"
proof -
  have m: "SetMode K 0 (ImmMode K) = ImmMode K"
    using assms(4) by (simp add: SetMode_def Class_zero pred_defs)
  have "Class (ImmMode K) = Class ((0 AND NOT (modeMask K)) OR ImmMode K)"
    by simp
  also have "\<dots> = Class 0"
    using assms(1,4) by (rule Class_field_update)
  finally have c: "isLoadOrStore (Class (ImmMode K))"
    by (simp add: Class_zero pred_defs)
  have "ImmMode K AND NOT (sizeMask K) = ImmMode K"
    using assms(4,3) by (rule valid_and_not_other)
  with c assms(5) have "SetSize K (ImmMode K) (DWord K) = ImmMode K OR DWord K"
    by (simp add: SetSize_def)
  with m show ?thesis
    by (simp add: LoadImmOp_def LdClass_def)
qed

lemma LoadImmOp_DWord_facets:
  assumes "modeMask K AND classMask = 0" and "sizeMask K AND classMask = 0"
    and "modeMask K AND sizeMask K = 0"
    and "valid (ImmMode K) (modeMask K)" and "valid (DWord K) (sizeMask K)"
  shows "Class (LoadImmOp K (DWord K)) = LdClass
    \<and> Mode K (LoadImmOp K (DWord K)) = ImmMode K
    \<and> Size K (LoadImmOp K (DWord K)) = DWord K"
proof -
  have i: "ImmMode K AND NOT (sizeMask K) = ImmMode K"
    using assms(4,3) by (rule valid_and_not_other)
  have v: "LoadImmOp K (DWord K) = (ImmMode K AND NOT (sizeMask K)) OR DWord K"
    using LoadImmOp_DWord_value [OF assms] i by simp
  have "Class ((ImmMode K AND NOT (sizeMask K)) OR DWord K) = Class (ImmMode K)"
    using assms(2,5) by (rule Class_field_update)
  also have "\<dots> = Class ((0 AND NOT (modeMask K)) OR ImmMode K)"
    by simp
  also have "\<dots> = Class 0"
    using assms(1,4) by (rule Class_field_update)
  finally have c: "Class (LoadImmOp K (DWord K)) = LdClass"
    by (simp add: v Class_zero)
  have sm: "sizeMask K AND modeMask K = 0"
    using assms(3) by (simp add: and.commute)
  have "((ImmMode K AND NOT (sizeMask K)) OR DWord K) AND modeMask K
      = ImmMode K AND modeMask K"
    using sm assms(5) unfolding valid_def by (rule field_update_other)
  then have md: "LoadImmOp K (DWord K) AND modeMask K = ImmMode K"
    using valid_and_mask [OF assms(4)] by (simp add: v)
  have sz: "LoadImmOp K (DWord K) AND sizeMask K = DWord K"
    unfolding v using assms(5) unfolding valid_def by (rule field_read_back)
  from c md sz show ?thesis
    by (simp add: Mode_def Size_def pred_defs)
qed

text \<open>
  Conversely, where the three masks make up the low byte, an opcode confined to
  the low byte with these three facets is \<^verbatim>\<open>LoadImmOp(DWord)\<close>.
\<close>

lemma facets_LoadImmOp_DWord:
  assumes "modeMask K AND classMask = 0" and "sizeMask K AND classMask = 0"
    and "modeMask K AND sizeMask K = 0"
    and "valid (ImmMode K) (modeMask K)" and "valid (DWord K) (sizeMask K)"
    and cover: "classMask OR modeMask K OR sizeMask K = opCodeMask"
    and low: "valid op opCodeMask"
    and facets: "Class op = LdClass" "Mode K op = ImmMode K" "Size K op = DWord K"
  shows "op = LoadImmOp K (DWord K)"
proof -
  have "op = op AND opCodeMask"
    using valid_and_mask [OF low] by simp
  also have "\<dots> = (op AND classMask) OR (op AND modeMask K) OR (op AND sizeMask K)"
    unfolding cover [symmetric] by (simp add: bit.conj_disj_distrib)
  also have "\<dots> = ImmMode K OR DWord K"
    using facets by (simp add: Class_LdClass_iff Mode_def Size_def pred_defs)
  finally show ?thesis
    using LoadImmOp_DWord_value [OF assms(1-5)] by simp
qed

text \<open>
  C2. \<^verbatim>\<open>rawInstructions\<close> returns 2 if and only if the opcode equals
  \<^verbatim>\<open>LoadImmOp(DWord)\<close>, and 1 for every other opcode. In a layout where class, mode
  and size make up the low byte, the opcodes confined to the low byte that take
  two slots are those of class \<^verbatim>\<open>LdClass\<close> with mode \<^verbatim>\<open>ImmMode\<close> and size \<^verbatim>\<open>DWord\<close>.
\<close>

theorem rawInstructions_two_slots:
  "(rawInstructions K op = 2 \<longleftrightarrow> op = LoadImmOp K (DWord K))
   \<and> (op \<noteq> LoadImmOp K (DWord K) \<longrightarrow> rawInstructions K op = 1)
   \<and> (modeMask K AND classMask = 0 \<and> sizeMask K AND classMask = 0
       \<and> modeMask K AND sizeMask K = 0
       \<and> valid (ImmMode K) (modeMask K) \<and> valid (DWord K) (sizeMask K)
       \<and> classMask OR modeMask K OR sizeMask K = opCodeMask
       \<and> valid op opCodeMask \<longrightarrow>
         (rawInstructions K op = 2 \<longleftrightarrow>
            Class op = LdClass \<and> Mode K op = ImmMode K \<and> Size K op = DWord K))"
proof (intro conjI impI)
  show "rawInstructions K op = 2 \<longleftrightarrow> op = LoadImmOp K (DWord K)"
    by (simp add: rawInstructions_def IsDWordLoad_def)
  show "rawInstructions K op = 1" if "op \<noteq> LoadImmOp K (DWord K)"
    using that by (simp add: rawInstructions_def IsDWordLoad_def)
  assume h: "modeMask K AND classMask = 0 \<and> sizeMask K AND classMask = 0
       \<and> modeMask K AND sizeMask K = 0
       \<and> valid (ImmMode K) (modeMask K) \<and> valid (DWord K) (sizeMask K)
       \<and> classMask OR modeMask K OR sizeMask K = opCodeMask
       \<and> valid op opCodeMask"
  then have h1: "modeMask K AND classMask = 0" and h2: "sizeMask K AND classMask = 0"
    and h3: "modeMask K AND sizeMask K = 0" and h4: "valid (ImmMode K) (modeMask K)"
    and h5: "valid (DWord K) (sizeMask K)"
    and h6: "classMask OR modeMask K OR sizeMask K = opCodeMask"
    and h7: "valid op opCodeMask"
    by blast+
  note f = LoadImmOp_DWord_facets [OF h1 h2 h3 h4 h5]
  show "rawInstructions K op = 2 \<longleftrightarrow>
      Class op = LdClass \<and> Mode K op = ImmMode K \<and> Size K op = DWord K"
  proof
    assume "rawInstructions K op = 2"
    then have "op = LoadImmOp K (DWord K)"
      by (simp add: rawInstructions_def IsDWordLoad_def split: if_splits)
    with f show "Class op = LdClass \<and> Mode K op = ImmMode K \<and> Size K op = DWord K"
      by simp
  next
    assume "Class op = LdClass \<and> Mode K op = ImmMode K \<and> Size K op = DWord K"
    then have "op = LoadImmOp K (DWord K)"
      using facets_LoadImmOp_DWord [OF h1 h2 h3 h4 h5 h6 h7] by blast
    then show "rawInstructions K op = 2"
      by (simp add: rawInstructions_def IsDWordLoad_def)
  qed
qed

text \<open>
  In the kernel's encoding \<^verbatim>\<open>LoadImmOp(DWord)\<close> is \<^verbatim>\<open>0x18\<close>, which takes two slots;
  the 32-bit load from memory \<^verbatim>\<open>0x61\<close> takes one.
\<close>

theorem rawInstructions_two_slots_witness:
  "LoadImmOp uapi (DWord uapi) = 0x18
   \<and> rawInstructions uapi 0x18 = 2 \<and> rawInstructions uapi 0x61 = 1
   \<and> modeMask uapi AND classMask = 0 \<and> sizeMask uapi AND classMask = 0
   \<and> modeMask uapi AND sizeMask uapi = 0
   \<and> valid (ImmMode uapi) (modeMask uapi) \<and> valid (DWord uapi) (sizeMask uapi)
   \<and> classMask OR modeMask uapi OR sizeMask uapi = opCodeMask
   \<and> valid 0x18 opCodeMask \<and> valid 0x61 opCodeMask
   \<and> Class 0x18 = LdClass \<and> Mode uapi 0x18 = ImmMode uapi \<and> Size uapi 0x18 = DWord uapi
   \<and> Class 0x61 \<noteq> LdClass"
proof -
  have l: "LoadImmOp uapi (DWord uapi) = 0x18"
    by (simp add: LoadImmOp_def SetSize_def SetMode_def valid_def Class_def classMask_def
        pred_defs class_defs uapi_masks uapi_values)
  have h: "modeMask uapi AND classMask = 0" "sizeMask uapi AND classMask = 0"
    "modeMask uapi AND sizeMask uapi = 0"
    "valid (ImmMode uapi) (modeMask uapi)" "valid (DWord uapi) (sizeMask uapi)"
    "classMask OR modeMask uapi OR sizeMask uapi = opCodeMask"
    "valid 0x18 opCodeMask" "valid 0x61 opCodeMask"
    by (simp_all add: valid_def classMask_def opCodeMask_def uapi_masks uapi_values)
  have c: "Class 0x61 \<noteq> LdClass" "Class 0x18 = LdClass"
    "Mode uapi 0x18 = ImmMode uapi" "Size uapi 0x18 = DWord uapi"
    by (simp_all add: Mode_def Size_def Class_def classMask_def pred_defs class_defs
        uapi_masks uapi_values)
  show ?thesis
    using l h c rawInstructions_two_slots [of uapi "0x18"]
      rawInstructions_two_slots [of uapi "0x61"]
    by simp
qed

section \<open>Setting a facet to its own value\<close>

text \<open>
  C3, as stated, fails on two opcodes that \<^verbatim>\<open>bpfOpCode\<close> accepts. The byte swap
  \<^verbatim>\<open>0xd4\<close> is of \<^verbatim>\<open>ALUClass\<close>, its source reads as \<^verbatim>\<open>InvalidSource\<close>, and setting
  that source gives \<^verbatim>\<open>InvalidOpCode\<close>. The 32-bit jump \<^verbatim>\<open>0x96\<close> holds \<^verbatim>\<open>Exit\<close> in its
  jump field, its jump operation reads as \<^verbatim>\<open>InvalidJumpOp\<close>, and setting that gives
  \<^verbatim>\<open>InvalidOpCode\<close>.
\<close>

theorem set_get_identity_counterexample:
  "valid 0xd4 opCodeMask \<and> IsALU (Class 0xd4)
   \<and> Source uapi 0xd4 = InvalidSource uapi
   \<and> SetSource uapi 0xd4 (Source uapi 0xd4) = InvalidOpCode
   \<and> SetSource uapi 0xd4 (Source uapi 0xd4) \<noteq> 0xd4
   \<and> valid 0x96 opCodeMask \<and> IsJump (Class 0x96)
   \<and> JumpOp uapi 0x96 = InvalidJumpOp uapi
   \<and> SetJumpOp uapi 0x96 (JumpOp uapi 0x96) = InvalidOpCode
   \<and> SetJumpOp uapi 0x96 (JumpOp uapi 0x96) \<noteq> 0x96"
  by (simp add: SetSource_def Source_def ALUOp_def SetJumpOp_def JumpOp_def Let_def
      valid_def opCodeMask_def Class_def classMask_def pred_defs class_defs
      uapi_masks uapi_values InvalidOpCode_def)

text \<open>
  C3, amended. For every opcode, setting a facet to the value read from it is the
  identity: mode and size on the load and store classes; the ALU operation on the
  ALU classes; the source on the ALU classes when the ALU operation is not
  \<^verbatim>\<open>Swap\<close>, and on the jump classes; the jump operation on the jump classes when it
  does not read as \<^verbatim>\<open>InvalidJumpOp\<close> (as it does for \<^verbatim>\<open>Exit\<close> and \<^verbatim>\<open>Call\<close> on
  \<^verbatim>\<open>Jump32Class\<close>); the atomic operation on \<^verbatim>\<open>StXClass\<close> in atomic mode. Where the
  facet reads as its sentinel and the sentinel lies outside the mask, the setter
  returns \<^verbatim>\<open>InvalidOpCode\<close>. The sentinel \<^verbatim>\<open>InvalidALUOp\<close> is assumed to differ from
  \<^verbatim>\<open>Swap\<close>.
\<close>

theorem set_get_identity:
  assumes "InvalidALUOp K \<noteq> Swap K"
  shows "(isLoadOrStore (Class op) \<longrightarrow>
            SetMode K op (Mode K op) = op \<and> SetSize K op (Size K op) = op)
    \<and> (IsALU (Class op) \<longrightarrow> SetALUOp K op (ALUOp K op) = op)
    \<and> (IsALU (Class op) \<and> ALUOp K op \<noteq> Swap K \<longrightarrow> SetSource K op (Source K op) = op)
    \<and> (IsJump (Class op) \<longrightarrow> SetSource K op (Source K op) = op)
    \<and> (IsJump (Class op) \<and> JumpOp K op \<noteq> InvalidJumpOp K \<longrightarrow>
            SetJumpOp K op (JumpOp K op) = op)
    \<and> (Class op = StXClass \<and> Mode K op = AtomicMode K \<longrightarrow>
            SetAtomicOp K op (AtomicOp K op) = op)
    \<and> (IsALU (Class op) \<and> ALUOp K op = Swap K
         \<and> \<not> valid (InvalidSource K) (sourceMask K) \<longrightarrow>
            SetSource K op (Source K op) = InvalidOpCode)
    \<and> (IsJump (Class op) \<and> JumpOp K op = InvalidJumpOp K
         \<and> \<not> valid (InvalidJumpOp K) (jumpMask K) \<longrightarrow>
            SetJumpOp K op (JumpOp K op) = InvalidOpCode)"
proof (intro conjI impI)
  assume "isLoadOrStore (Class op)"
  then show "SetMode K op (Mode K op) = op" "SetSize K op (Size K op) = op"
    by (simp_all add: SetMode_def Mode_def SetSize_def Size_def and_mask_valid
        field_roundtrip)
next
  assume "IsALU (Class op)"
  then show "SetALUOp K op (ALUOp K op) = op"
    by (simp add: SetALUOp_def ALUOp_def and_mask_valid field_roundtrip)
next
  assume "IsALU (Class op) \<and> ALUOp K op \<noteq> Swap K"
  then show "SetSource K op (Source K op) = op"
    by (simp add: SetSource_def Source_def isJumpOrALU_def and_mask_valid field_roundtrip)
next
  assume j: "IsJump (Class op)"
  then have "\<not> IsALU (Class op)"
    by (auto simp: IsJump_def IsALU_def class_defs)
  with j assms show "SetSource K op (Source K op) = op"
    by (simp add: SetSource_def Source_def ALUOp_def isJumpOrALU_def and_mask_valid
        field_roundtrip)
next
  assume j: "IsJump (Class op) \<and> JumpOp K op \<noteq> InvalidJumpOp K"
  then have r: "JumpOp K op = op AND jumpMask K"
    by (auto simp: JumpOp_def Let_def split: if_splits)
  have "(op AND NOT (jumpMask K)) OR (op AND jumpMask K) = op"
    by (rule field_roundtrip)
  with j show "SetJumpOp K op (JumpOp K op) = op"
    unfolding r [symmetric] by (simp add: SetJumpOp_def Let_def r and_mask_valid)
next
  assume "Class op = StXClass \<and> Mode K op = AtomicMode K"
  then show "SetAtomicOp K op (AtomicOp K op) = op"
    by (simp add: SetAtomicOp_def AtomicOp_def and_mask_valid field_roundtrip)
next
  assume "IsALU (Class op) \<and> ALUOp K op = Swap K
    \<and> \<not> valid (InvalidSource K) (sourceMask K)"
  then show "SetSource K op (Source K op) = InvalidOpCode"
    by (simp add: SetSource_def Source_def)
next
  assume "IsJump (Class op) \<and> JumpOp K op = InvalidJumpOp K
    \<and> \<not> valid (InvalidJumpOp K) (jumpMask K)"
  then show "SetJumpOp K op (JumpOp K op) = InvalidOpCode"
    by (simp add: SetJumpOp_def)
qed

text \<open>
  In the kernel's encoding: the load \<^verbatim>\<open>0x61\<close>, the addition \<^verbatim>\<open>0x0c\<close>, the jumps
  \<^verbatim>\<open>0x1d\<close> and \<^verbatim>\<open>0x1e\<close> and the atomic store \<^verbatim>\<open>0xdb\<close> are fixed by their setters;
  the byte swap \<^verbatim>\<open>0xd4\<close> keeps its ALU operation and loses the opcode on its source;
  the 32-bit jump \<^verbatim>\<open>0x96\<close> loses it on its jump operation.
\<close>

theorem set_get_identity_witness:
  "InvalidALUOp uapi \<noteq> Swap uapi
   \<and> isLoadOrStore (Class 0x61)
   \<and> SetMode uapi 0x61 (Mode uapi 0x61) = 0x61 \<and> SetSize uapi 0x61 (Size uapi 0x61) = 0x61
   \<and> IsALU (Class 0x0c) \<and> ALUOp uapi 0x0c \<noteq> Swap uapi
   \<and> SetALUOp uapi 0x0c (ALUOp uapi 0x0c) = 0x0c
   \<and> SetSource uapi 0x0c (Source uapi 0x0c) = 0x0c
   \<and> IsJump (Class 0x1d) \<and> JumpOp uapi 0x1d \<noteq> InvalidJumpOp uapi
   \<and> SetSource uapi 0x1d (Source uapi 0x1d) = 0x1d
   \<and> SetJumpOp uapi 0x1d (JumpOp uapi 0x1d) = 0x1d
   \<and> Class 0xdb = StXClass \<and> Mode uapi 0xdb = AtomicMode uapi
   \<and> SetAtomicOp uapi 0xdb (AtomicOp uapi 0xdb) = 0xdb
   \<and> IsALU (Class 0xd4) \<and> ALUOp uapi 0xd4 = Swap uapi
   \<and> \<not> valid (InvalidSource uapi) (sourceMask uapi)
   \<and> SetSource uapi 0xd4 (Source uapi 0xd4) = InvalidOpCode
   \<and> IsJump (Class 0x96) \<and> JumpOp uapi 0x96 = InvalidJumpOp uapi
   \<and> \<not> valid (InvalidJumpOp uapi) (jumpMask uapi)
   \<and> SetJumpOp uapi 0x96 (JumpOp uapi 0x96) = InvalidOpCode"
proof -
  have h: "InvalidALUOp uapi \<noteq> Swap uapi"
    by (simp add: uapi_values)
  have c: "isLoadOrStore (Class 0x61)" "IsALU (Class 0x0c)" "IsJump (Class 0x1d)"
    "Class 0xdb = StXClass" "IsALU (Class 0xd4)" "IsJump (Class 0x96)"
    by (simp_all add: Class_def classMask_def pred_defs class_defs)
  have g: "ALUOp uapi 0x0c \<noteq> Swap uapi" "JumpOp uapi 0x1d \<noteq> InvalidJumpOp uapi"
    "Mode uapi 0xdb = AtomicMode uapi" "ALUOp uapi 0xd4 = Swap uapi"
    "JumpOp uapi 0x96 = InvalidJumpOp uapi"
    "\<not> valid (InvalidSource uapi) (sourceMask uapi)"
    "\<not> valid (InvalidJumpOp uapi) (jumpMask uapi)"
    by (simp_all add: ALUOp_def JumpOp_def Mode_def Let_def valid_def Class_def
        classMask_def pred_defs class_defs uapi_masks uapi_values)
  note T = set_get_identity [OF h]
  show ?thesis
    using h c g T [of "0x61"] T [of "0x0c"] T [of "0x1d"] T [of "0xdb"] T [of "0xd4"]
      T [of "0x96"]
    by simp
qed

section \<open>Facets a class does not admit\<close>

lemma atomic_outside_StX_Atomic:
  "\<not> (Class op = StXClass \<and> Mode K op = AtomicMode K) \<Longrightarrow>
     AtomicOp K op = InvalidAtomic K \<and> (\<forall>v. SetAtomicOp K op v = InvalidOpCode)"
  by (auto simp: AtomicOp_def SetAtomicOp_def)

text \<open>
  C4. For every opcode, valid or not: a facet that the class of the opcode does not
  admit reads as its sentinel, and its setter returns \<^verbatim>\<open>InvalidOpCode\<close> whatever the
  argument. Mode and size belong to the load and store classes, the source to the
  jump and ALU classes, the ALU operation to the ALU classes, the jump operation to
  the jump classes, and the atomic operation to \<^verbatim>\<open>StXClass\<close> in atomic mode.
\<close>

theorem foreign_facet_invalid:
  "(\<not> isLoadOrStore (Class op) \<longrightarrow>
      Mode K op = InvalidMode K \<and> Size K op = InvalidSize K
      \<and> (\<forall>v. SetMode K op v = InvalidOpCode) \<and> (\<forall>v. SetSize K op v = InvalidOpCode))
   \<and> (\<not> isJumpOrALU (Class op) \<longrightarrow>
      Source K op = InvalidSource K \<and> (\<forall>v. SetSource K op v = InvalidOpCode))
   \<and> (\<not> IsALU (Class op) \<longrightarrow>
      ALUOp K op = InvalidALUOp K \<and> (\<forall>v. SetALUOp K op v = InvalidOpCode))
   \<and> (\<not> IsJump (Class op) \<longrightarrow>
      JumpOp K op = InvalidJumpOp K \<and> (\<forall>v. SetJumpOp K op v = InvalidOpCode))
   \<and> (\<not> (Class op = StXClass \<and> Mode K op = AtomicMode K) \<longrightarrow>
      AtomicOp K op = InvalidAtomic K \<and> (\<forall>v. SetAtomicOp K op v = InvalidOpCode))"
proof (intro conjI impI)
  assume "\<not> (Class op = StXClass \<and> Mode K op = AtomicMode K)"
  then show "AtomicOp K op = InvalidAtomic K" "\<forall>v. SetAtomicOp K op v = InvalidOpCode"
    using atomic_outside_StX_Atomic by blast+
qed (simp_all add: Mode_def Size_def Source_def ALUOp_def JumpOp_def
      SetMode_def SetSize_def SetSource_def SetALUOp_def SetJumpOp_def)

text \<open>
  A jump opcode (\<^verbatim>\<open>0x05\<close>) has no mode, size, ALU operation or atomic operation; a
  load opcode (\<^verbatim>\<open>0x00\<close>) has no source and no jump operation.
\<close>

theorem foreign_facet_invalid_witness:
  "\<not> isLoadOrStore (Class 0x05) \<and> \<not> IsALU (Class 0x05)
   \<and> \<not> (Class 0x05 = StXClass \<and> Mode uapi 0x05 = AtomicMode uapi)
   \<and> Mode uapi 0x05 = InvalidMode uapi \<and> Size uapi 0x05 = InvalidSize uapi
   \<and> SetMode uapi 0x05 (ImmMode uapi) = InvalidOpCode
   \<and> SetSize uapi 0x05 (DWord uapi) = InvalidOpCode
   \<and> ALUOp uapi 0x05 = InvalidALUOp uapi
   \<and> SetALUOp uapi 0x05 (Swap uapi) = InvalidOpCode
   \<and> AtomicOp uapi 0x05 = InvalidAtomic uapi
   \<and> SetAtomicOp uapi 0x05 0 = InvalidOpCode
   \<and> \<not> isJumpOrALU (Class 0x00) \<and> \<not> IsJump (Class 0x00)
   \<and> Source uapi 0x00 = InvalidSource uapi
   \<and> SetSource uapi 0x00 0x08 = InvalidOpCode
   \<and> JumpOp uapi 0x00 = InvalidJumpOp uapi
   \<and> SetJumpOp uapi 0x00 (Exit uapi) = InvalidOpCode"
  using foreign_facet_invalid [of "0x05" uapi] foreign_facet_invalid [of "0x00" uapi]
  by (simp add: Class_def classMask_def pred_defs class_defs)

section \<open>Class inertia\<close>

text \<open>
  C5. For every opcode and every argument: when a setter succeeds (its result is
  not \<^verbatim>\<open>InvalidOpCode\<close>), the result has the class of the opcode it was applied
  to. The masks of the facets are declared outside this file; the layout comment of
  \<^verbatim>\<open>OpCode\<close> draws each of them apart from the three class bits, which is what the
  theorem assumes of them.
\<close>

theorem setters_keep_class:
  assumes "modeMask K AND classMask = 0" and "sizeMask K AND classMask = 0"
    and "atomicMask K AND classMask = 0" and "sourceMask K AND classMask = 0"
    and "aluMask K AND classMask = 0" and "jumpMask K AND classMask = 0"
  shows "(SetMode K op v \<noteq> InvalidOpCode \<longrightarrow> Class (SetMode K op v) = Class op)
    \<and> (SetSize K op v \<noteq> InvalidOpCode \<longrightarrow> Class (SetSize K op v) = Class op)
    \<and> (SetAtomicOp K op v \<noteq> InvalidOpCode \<longrightarrow> Class (SetAtomicOp K op v) = Class op)
    \<and> (SetSource K op v \<noteq> InvalidOpCode \<longrightarrow> Class (SetSource K op v) = Class op)
    \<and> (SetALUOp K op v \<noteq> InvalidOpCode \<longrightarrow> Class (SetALUOp K op v) = Class op)
    \<and> (SetJumpOp K op v \<noteq> InvalidOpCode \<longrightarrow> Class (SetJumpOp K op v) = Class op)"
proof (intro conjI impI)
  assume "SetMode K op v \<noteq> InvalidOpCode"
  then show "Class (SetMode K op v) = Class op"
    using assms(1) by (auto simp: SetMode_def Class_field_update split: if_splits)
next
  assume "SetSize K op v \<noteq> InvalidOpCode"
  then show "Class (SetSize K op v) = Class op"
    using assms(2) by (auto simp: SetSize_def Class_field_update split: if_splits)
next
  assume "SetAtomicOp K op v \<noteq> InvalidOpCode"
  then show "Class (SetAtomicOp K op v) = Class op"
    using assms(3) by (auto simp: SetAtomicOp_def Class_field_update split: if_splits)
next
  assume "SetSource K op v \<noteq> InvalidOpCode"
  then show "Class (SetSource K op v) = Class op"
    using assms(4) by (auto simp: SetSource_def Class_field_update split: if_splits)
next
  assume "SetALUOp K op v \<noteq> InvalidOpCode"
  then show "Class (SetALUOp K op v) = Class op"
    using assms(5) by (auto simp: SetALUOp_def Class_field_update split: if_splits)
next
  assume "SetJumpOp K op v \<noteq> InvalidOpCode"
  then show "Class (SetJumpOp K op v) = Class op"
    using assms(6) by (auto simp: SetJumpOp_def Let_def Class_field_update split: if_splits)
qed

text \<open>
  In the kernel's encoding the six masks avoid the class bits, and each setter
  succeeds on an opcode of its class: the class stays.
\<close>

theorem setters_keep_class_witness:
  "modeMask uapi AND classMask = 0 \<and> sizeMask uapi AND classMask = 0
   \<and> atomicMask uapi AND classMask = 0 \<and> sourceMask uapi AND classMask = 0
   \<and> aluMask uapi AND classMask = 0 \<and> jumpMask uapi AND classMask = 0
   \<and> SetMode uapi 0x61 0xc0 \<noteq> InvalidOpCode
   \<and> Class (SetMode uapi 0x61 0xc0) = Class 0x61
   \<and> SetSize uapi 0x61 0x18 \<noteq> InvalidOpCode
   \<and> Class (SetSize uapi 0x61 0x18) = Class 0x61
   \<and> SetAtomicOp uapi 0xdb 0xf100 \<noteq> InvalidOpCode
   \<and> Class (SetAtomicOp uapi 0xdb 0xf100) = Class 0xdb
   \<and> SetSource uapi 0x05 0x08 \<noteq> InvalidOpCode
   \<and> Class (SetSource uapi 0x05 0x08) = Class 0x05
   \<and> SetALUOp uapi 0x04 0xd0 \<noteq> InvalidOpCode
   \<and> Class (SetALUOp uapi 0x04 0xd0) = Class 0x04
   \<and> SetJumpOp uapi 0x15 0x90 \<noteq> InvalidOpCode
   \<and> Class (SetJumpOp uapi 0x15 0x90) = Class 0x15"
proof -
  have h: "modeMask uapi AND classMask = 0" "sizeMask uapi AND classMask = 0"
    "atomicMask uapi AND classMask = 0" "sourceMask uapi AND classMask = 0"
    "aluMask uapi AND classMask = 0" "jumpMask uapi AND classMask = 0"
    by (simp_all add: uapi_masks classMask_def)
  have s: "SetMode uapi 0x61 0xc0 = 0xc1" "SetSize uapi 0x61 0x18 = 0x79"
    "SetAtomicOp uapi 0xdb 0xf100 = 0xf1db" "SetSource uapi 0x05 0x08 = 0x0d"
    "SetALUOp uapi 0x04 0xd0 = 0xd4" "SetJumpOp uapi 0x15 0x90 = 0x95"
    by (simp_all add: SetMode_def SetSize_def SetAtomicOp_def SetSource_def SetALUOp_def
        SetJumpOp_def JumpOp_def Mode_def Let_def valid_def Class_def classMask_def
        pred_defs class_defs uapi_masks uapi_values)
  note T = setters_keep_class [OF h]
  show ?thesis
    using h T [of "0x61" "0xc0"] T [of "0x61" "0x18"] T [of "0xdb" "0xf100"]
      T [of "0x05" "0x08"] T [of "0x04" "0xd0"] T [of "0x15" "0x90"]
    by (simp add: s InvalidOpCode_def)
qed

section \<open>Source and endianness\<close>

text \<open>
  C6. For every opcode: the source reads as \<^verbatim>\<open>InvalidSource\<close> whenever the ALU
  operation is \<^verbatim>\<open>Swap\<close>, the endianness reads as \<^verbatim>\<open>InvalidEndian\<close> whenever the ALU
  operation is not \<^verbatim>\<open>Swap\<close>, and so the two facets are never both readable on the
  same opcode.
\<close>

theorem source_endianness_exclusive:
  "(ALUOp K op = Swap K \<longrightarrow> Source K op = InvalidSource K)
   \<and> (ALUOp K op \<noteq> Swap K \<longrightarrow> Endianness K op = InvalidEndian K)
   \<and> \<not> (Source K op \<noteq> InvalidSource K \<and> Endianness K op \<noteq> InvalidEndian K)"
  by (simp add: Source_def Endianness_def)

text \<open>
  The byte swap \<^verbatim>\<open>0xd4\<close> of \<^verbatim>\<open>ALUClass\<close>, a class that admits a source, has none;
  the addition \<^verbatim>\<open>0x04\<close> has no endianness.
\<close>

theorem source_endianness_exclusive_witness:
  "isJumpOrALU (Class 0xd4) \<and> ALUOp uapi 0xd4 = Swap uapi
   \<and> Source uapi 0xd4 = InvalidSource uapi
   \<and> ALUOp uapi 0x04 \<noteq> Swap uapi \<and> Endianness uapi 0x04 = InvalidEndian uapi"
  using source_endianness_exclusive [of uapi "0xd4"] source_endianness_exclusive [of uapi "0x04"]
  by (simp add: ALUOp_def Class_def classMask_def pred_defs class_defs uapi_def)

section \<open>The raw opcode\<close>

text \<open>
  C7. \<^verbatim>\<open>bpfOpCode\<close> returns the low byte of an opcode that has no bit above the low
  byte, and fails exactly when a bit above the low byte is set (the class is never
  unknown); it fails on \<^verbatim>\<open>InvalidOpCode\<close>. It is the one operation with an error
  result: every other operation of the model is a total function into a value.
\<close>

theorem bpfOpCode_low_byte:
  "(valid op opCodeMask \<longleftrightarrow> drop_bit 8 op = 0)
   \<and> (drop_bit 8 op = 0 \<longrightarrow>
        bpfOpCode op = Inr (ucast op) \<and> ucast (ucast op :: 8 word) = op)
   \<and> (drop_bit 8 op \<noteq> 0 \<longrightarrow> bpfOpCode op = Inl (InvalidOpcodeError op))
   \<and> (\<forall>b. bpfOpCode op = Inr b \<longrightarrow> unat b = unat op mod 256)
   \<and> bpfOpCode InvalidOpCode = Inl (InvalidOpcodeError InvalidOpCode)"
proof (intro conjI impI allI)
  show "valid op opCodeMask \<longleftrightarrow> drop_bit 8 op = 0"
    by (rule valid_opCodeMask_iff)
  show "bpfOpCode op = Inr (ucast op)" if "drop_bit 8 op = 0"
    using that by (simp add: bpfOpCode_def valid_opCodeMask_iff low_byte_cast)
  show "ucast (ucast op :: 8 word) = op" if "drop_bit 8 op = 0"
    using that by (rule low_byte_exact)
  show "bpfOpCode op = Inl (InvalidOpcodeError op)" if "drop_bit 8 op \<noteq> 0"
    using that by (simp add: bpfOpCode_def valid_opCodeMask_iff)
  show "unat b = unat op mod 256" if "bpfOpCode op = Inr b" for b
    using that by (auto simp: bpfOpCode_def low_byte_cast low_byte_value split: if_splits)
  show "bpfOpCode InvalidOpCode = Inl (InvalidOpcodeError InvalidOpCode)"
    by (simp add: bpfOpCode_def valid_def opCodeMask_def InvalidOpCode_def)
qed

text \<open>
  The two-slot load \<^verbatim>\<open>0x18\<close> serialises to the byte \<^verbatim>\<open>0x18\<close>; \<^verbatim>\<open>0x118\<close>, with a bit
  above the low byte, does not serialise.
\<close>

theorem bpfOpCode_low_byte_witness:
  "drop_bit 8 (0x18 :: OpCode) = 0 \<and> bpfOpCode 0x18 = Inr 0x18
   \<and> drop_bit 8 (0x118 :: OpCode) \<noteq> 0 \<and> bpfOpCode 0x118 = Inl (InvalidOpcodeError 0x118)"
  using bpfOpCode_low_byte [of "0x18"] bpfOpCode_low_byte [of "0x118"]
  by (simp add: drop_bit_eq_div)

section \<open>Mnemonics\<close>

lemma uapi_names:
  "modeNames uapi =
     [(0x00, ''ImmMode''), (0x20, ''AbsMode''), (0x40, ''IndMode''), (0x60, ''MemMode''),
      (0x80, ''MemSXMode''), (0xc0, ''AtomicMode''), (0xff, ''InvalidMode'')]"
  "atomicNames uapi =
     [(0x0000, ''AddAtomic''), (0x5000, ''AndAtomic''), (0x4000, ''OrAtomic''),
      (0xa000, ''XorAtomic''), (0x0100, ''FetchAdd''), (0x5100, ''FetchAnd''),
      (0x4100, ''FetchOr''), (0xa100, ''FetchXor''), (0xe100, ''Xchg''),
      (0xf100, ''CmpXchg'')]"
  "sourceNames uapi =
     [(0x00, ''ImmSource''), (0x08, ''RegSource''), (0xffff, ''InvalidSource'')]"
  "aluNames uapi =
     [(0x00, ''Add''), (0x10, ''Sub''), (0x20, ''Mul''), (0x30, ''Div''), (0x40, ''Or''),
      (0x50, ''And''), (0x60, ''LSh''), (0x70, ''RSh''), (0x80, ''Neg''), (0x90, ''Mod''),
      (0xa0, ''Xor''), (0xb0, ''Mov''), (0xc0, ''ArSh''), (0xd0, ''Swap''),
      (0xffff, ''InvalidALUOp'')]"
  "endianNames uapi =
     [(0x00, ''LE''), (0x08, ''BE''), (0xff, ''InvalidEndian'')]"
  "jumpNames uapi =
     [(0x00, ''Ja''), (0x10, ''JEq''), (0x20, ''JGT''), (0x30, ''JGE''), (0x40, ''JSet''),
      (0x50, ''JNE''), (0x60, ''JSGT''), (0x70, ''JSGE''), (0x80, ''Call''),
      (0x90, ''Exit''), (0xa0, ''JLT''), (0xb0, ''JLE''), (0xc0, ''JSLT''),
      (0xd0, ''JSLE''), (0xff, ''InvalidJumpOp'')]"
  by (simp_all add: uapi_def)

lemmas eval_defs = mnemonic_clean_def String_def Let_def
  Mode_def Size_def AtomicOp_def ALUOp_def Source_def Endianness_def JumpOp_def
  ClassString_def ModeString_def AtomicOpString_def SourceString_def ALUOpString_def
  EndiannessString_def JumpOpString_def nameOf_def classNames_def sizeSuffix_def digit_def
  TrimSuffix_def suffix_to_prefix sublist_code
  valid_def opCodeMask_def Class_def classMask_def pred_defs class_defs
  uapi_masks uapi_values uapi_names

subsection \<open>The opcodes of the low byte\<close>

text \<open>The 256 opcodes of the low byte, sixteen at a time.\<close>

lemma mnemonic_clean_00:
  assumes "n < 16"
  shows "mnemonic_clean uapi (of_nat n)"
proof -
  from assms have "n \<in> {0, 1, 2, 3, 4, 5, 6, 7, 8, 9, 10, 11, 12, 13, 14, 15}"
    by simp arith
  then show ?thesis
    by (elim insertE emptyE) (simp_all add: eval_defs)
qed

lemma mnemonic_clean_01:
  assumes "16 \<le> n" and "n < 32"
  shows "mnemonic_clean uapi (of_nat n)"
proof -
  from assms have "n \<in> {16, 17, 18, 19, 20, 21, 22, 23, 24, 25, 26, 27, 28, 29, 30, 31}"
    by simp arith
  then show ?thesis
    by (elim insertE emptyE) (simp_all add: eval_defs)
qed

lemma mnemonic_clean_02:
  assumes "32 \<le> n" and "n < 48"
  shows "mnemonic_clean uapi (of_nat n)"
proof -
  from assms have "n \<in> {32, 33, 34, 35, 36, 37, 38, 39, 40, 41, 42, 43, 44, 45, 46, 47}"
    by simp arith
  then show ?thesis
    by (elim insertE emptyE) (simp_all add: eval_defs)
qed

lemma mnemonic_clean_03:
  assumes "48 \<le> n" and "n < 64"
  shows "mnemonic_clean uapi (of_nat n)"
proof -
  from assms have "n \<in> {48, 49, 50, 51, 52, 53, 54, 55, 56, 57, 58, 59, 60, 61, 62, 63}"
    by simp arith
  then show ?thesis
    by (elim insertE emptyE) (simp_all add: eval_defs)
qed

lemma mnemonic_clean_04:
  assumes "64 \<le> n" and "n < 80"
  shows "mnemonic_clean uapi (of_nat n)"
proof -
  from assms have "n \<in> {64, 65, 66, 67, 68, 69, 70, 71, 72, 73, 74, 75, 76, 77, 78, 79}"
    by simp arith
  then show ?thesis
    by (elim insertE emptyE) (simp_all add: eval_defs)
qed

lemma mnemonic_clean_05:
  assumes "80 \<le> n" and "n < 96"
  shows "mnemonic_clean uapi (of_nat n)"
proof -
  from assms have "n \<in> {80, 81, 82, 83, 84, 85, 86, 87, 88, 89, 90, 91, 92, 93, 94, 95}"
    by simp arith
  then show ?thesis
    by (elim insertE emptyE) (simp_all add: eval_defs)
qed

lemma mnemonic_clean_06:
  assumes "96 \<le> n" and "n < 112"
  shows "mnemonic_clean uapi (of_nat n)"
proof -
  from assms have "n \<in> {96, 97, 98, 99, 100, 101, 102, 103, 104, 105, 106, 107, 108, 109, 110, 111}"
    by simp arith
  then show ?thesis
    by (elim insertE emptyE) (simp_all add: eval_defs)
qed

lemma mnemonic_clean_07:
  assumes "112 \<le> n" and "n < 128"
  shows "mnemonic_clean uapi (of_nat n)"
proof -
  from assms have "n \<in> {112, 113, 114, 115, 116, 117, 118, 119, 120, 121, 122, 123, 124, 125, 126, 127}"
    by simp arith
  then show ?thesis
    by (elim insertE emptyE) (simp_all add: eval_defs)
qed

lemma mnemonic_clean_08:
  assumes "128 \<le> n" and "n < 144"
  shows "mnemonic_clean uapi (of_nat n)"
proof -
  from assms have "n \<in> {128, 129, 130, 131, 132, 133, 134, 135, 136, 137, 138, 139, 140, 141, 142, 143}"
    by simp arith
  then show ?thesis
    by (elim insertE emptyE) (simp_all add: eval_defs)
qed

lemma mnemonic_clean_09:
  assumes "144 \<le> n" and "n < 160"
  shows "mnemonic_clean uapi (of_nat n)"
proof -
  from assms have "n \<in> {144, 145, 146, 147, 148, 149, 150, 151, 152, 153, 154, 155, 156, 157, 158, 159}"
    by simp arith
  then show ?thesis
    by (elim insertE emptyE) (simp_all add: eval_defs)
qed

lemma mnemonic_clean_10:
  assumes "160 \<le> n" and "n < 176"
  shows "mnemonic_clean uapi (of_nat n)"
proof -
  from assms have "n \<in> {160, 161, 162, 163, 164, 165, 166, 167, 168, 169, 170, 171, 172, 173, 174, 175}"
    by simp arith
  then show ?thesis
    by (elim insertE emptyE) (simp_all add: eval_defs)
qed

lemma mnemonic_clean_11:
  assumes "176 \<le> n" and "n < 192"
  shows "mnemonic_clean uapi (of_nat n)"
proof -
  from assms have "n \<in> {176, 177, 178, 179, 180, 181, 182, 183, 184, 185, 186, 187, 188, 189, 190, 191}"
    by simp arith
  then show ?thesis
    by (elim insertE emptyE) (simp_all add: eval_defs)
qed

lemma mnemonic_clean_12:
  assumes "192 \<le> n" and "n < 208"
  shows "mnemonic_clean uapi (of_nat n)"
proof -
  from assms have "n \<in> {192, 193, 194, 195, 196, 197, 198, 199, 200, 201, 202, 203, 204, 205, 206, 207}"
    by simp arith
  then show ?thesis
    by (elim insertE emptyE) (simp_all add: eval_defs)
qed

lemma mnemonic_clean_13:
  assumes "208 \<le> n" and "n < 224"
  shows "mnemonic_clean uapi (of_nat n)"
proof -
  from assms have "n \<in> {208, 209, 210, 211, 212, 213, 214, 215, 216, 217, 218, 219, 220, 221, 222, 223}"
    by simp arith
  then show ?thesis
    by (elim insertE emptyE) (simp_all add: eval_defs)
qed

lemma mnemonic_clean_14:
  assumes "224 \<le> n" and "n < 240"
  shows "mnemonic_clean uapi (of_nat n)"
proof -
  from assms have "n \<in> {224, 225, 226, 227, 228, 229, 230, 231, 232, 233, 234, 235, 236, 237, 238, 239}"
    by simp arith
  then show ?thesis
    by (elim insertE emptyE) (simp_all add: eval_defs)
qed

lemma mnemonic_clean_15:
  assumes "240 \<le> n" and "n < 256"
  shows "mnemonic_clean uapi (of_nat n)"
proof -
  from assms have "n \<in> {240, 241, 242, 243, 244, 245, 246, 247, 248, 249, 250, 251, 252, 253, 254, 255}"
    by simp arith
  then show ?thesis
    by (elim insertE emptyE) (simp_all add: eval_defs)
qed

lemma mnemonic_clean_low_byte:
  assumes "n < 256"
  shows "mnemonic_clean uapi (of_nat n)"
proof -
  have b1: "mnemonic_clean uapi (of_nat n)"
    if "n < 32" for n
  proof (cases "n < 16")
    case True
    then show ?thesis by (rule mnemonic_clean_00)
  next
    case False
    then have "16 \<le> n" by simp
    then show ?thesis using that by (rule mnemonic_clean_01)
  qed
  have b2: "mnemonic_clean uapi (of_nat n)"
    if "n < 48" for n
  proof (cases "n < 32")
    case True
    then show ?thesis by (rule b1)
  next
    case False
    then have "32 \<le> n" by simp
    then show ?thesis using that by (rule mnemonic_clean_02)
  qed
  have b3: "mnemonic_clean uapi (of_nat n)"
    if "n < 64" for n
  proof (cases "n < 48")
    case True
    then show ?thesis by (rule b2)
  next
    case False
    then have "48 \<le> n" by simp
    then show ?thesis using that by (rule mnemonic_clean_03)
  qed
  have b4: "mnemonic_clean uapi (of_nat n)"
    if "n < 80" for n
  proof (cases "n < 64")
    case True
    then show ?thesis by (rule b3)
  next
    case False
    then have "64 \<le> n" by simp
    then show ?thesis using that by (rule mnemonic_clean_04)
  qed
  have b5: "mnemonic_clean uapi (of_nat n)"
    if "n < 96" for n
  proof (cases "n < 80")
    case True
    then show ?thesis by (rule b4)
  next
    case False
    then have "80 \<le> n" by simp
    then show ?thesis using that by (rule mnemonic_clean_05)
  qed
  have b6: "mnemonic_clean uapi (of_nat n)"
    if "n < 112" for n
  proof (cases "n < 96")
    case True
    then show ?thesis by (rule b5)
  next
    case False
    then have "96 \<le> n" by simp
    then show ?thesis using that by (rule mnemonic_clean_06)
  qed
  have b7: "mnemonic_clean uapi (of_nat n)"
    if "n < 128" for n
  proof (cases "n < 112")
    case True
    then show ?thesis by (rule b6)
  next
    case False
    then have "112 \<le> n" by simp
    then show ?thesis using that by (rule mnemonic_clean_07)
  qed
  have b8: "mnemonic_clean uapi (of_nat n)"
    if "n < 144" for n
  proof (cases "n < 128")
    case True
    then show ?thesis by (rule b7)
  next
    case False
    then have "128 \<le> n" by simp
    then show ?thesis using that by (rule mnemonic_clean_08)
  qed
  have b9: "mnemonic_clean uapi (of_nat n)"
    if "n < 160" for n
  proof (cases "n < 144")
    case True
    then show ?thesis by (rule b8)
  next
    case False
    then have "144 \<le> n" by simp
    then show ?thesis using that by (rule mnemonic_clean_09)
  qed
  have b10: "mnemonic_clean uapi (of_nat n)"
    if "n < 176" for n
  proof (cases "n < 160")
    case True
    then show ?thesis by (rule b9)
  next
    case False
    then have "160 \<le> n" by simp
    then show ?thesis using that by (rule mnemonic_clean_10)
  qed
  have b11: "mnemonic_clean uapi (of_nat n)"
    if "n < 192" for n
  proof (cases "n < 176")
    case True
    then show ?thesis by (rule b10)
  next
    case False
    then have "176 \<le> n" by simp
    then show ?thesis using that by (rule mnemonic_clean_11)
  qed
  have b12: "mnemonic_clean uapi (of_nat n)"
    if "n < 208" for n
  proof (cases "n < 192")
    case True
    then show ?thesis by (rule b11)
  next
    case False
    then have "192 \<le> n" by simp
    then show ?thesis using that by (rule mnemonic_clean_12)
  qed
  have b13: "mnemonic_clean uapi (of_nat n)"
    if "n < 224" for n
  proof (cases "n < 208")
    case True
    then show ?thesis by (rule b12)
  next
    case False
    then have "208 \<le> n" by simp
    then show ?thesis using that by (rule mnemonic_clean_13)
  qed
  have b14: "mnemonic_clean uapi (of_nat n)"
    if "n < 240" for n
  proof (cases "n < 224")
    case True
    then show ?thesis by (rule b13)
  next
    case False
    then have "224 \<le> n" by simp
    then show ?thesis using that by (rule mnemonic_clean_14)
  qed
  have b15: "mnemonic_clean uapi (of_nat n)"
    if "n < 256" for n
  proof (cases "n < 240")
    case True
    then show ?thesis by (rule b14)
  next
    case False
    then have "240 \<le> n" by simp
    then show ?thesis using that by (rule mnemonic_clean_15)
  qed
  from b15 [OF assms] show ?thesis .
qed

lemma valid_low_byte_nat:
  assumes "valid op opCodeMask"
  shows "unat op < 256"
proof -
  from assms have "drop_bit 8 op = 0"
    by (simp add: valid_opCodeMask_iff)
  then have "unat (drop_bit 8 op) = 0"
    by simp
  then have "unat op div 256 = 0"
    by (simp add: drop_bit_eq_div unat_div)
  then show ?thesis
    by (simp add: div_eq_0_iff)
qed

lemma mnemonic_clean_valid:
  assumes "valid op opCodeMask"
  shows "mnemonic_clean uapi op"
proof -
  from assms have "unat op < 256"
    by (rule valid_low_byte_nat)
  then have "mnemonic_clean uapi (of_nat (unat op))"
    by (rule mnemonic_clean_low_byte)
  then show ?thesis
    by simp
qed

subsection \<open>Atomic stores\<close>

text \<open>
  The mnemonic of an atomic store: the class, the mode, the atomic operation and
  the size, whatever lies in the atomic field.
\<close>

lemma atomic_field_not_sentinel: "op AND atomicMask uapi \<noteq> InvalidAtomic uapi"
proof
  assume "op AND atomicMask uapi = InvalidAtomic uapi"
  then have "valid (InvalidAtomic uapi) (atomicMask uapi)"
    using and_mask_valid [of op "atomicMask uapi"] by simp
  then show False
    by (simp add: valid_def uapi_masks uapi_values)
qed

lemma atomic_store_String:
  assumes "Class op = StXClass" and "Mode uapi op = AtomicMode uapi"
  shows "String uapi op =
    ''StXAtomic'' @ TrimSuffix (AtomicOpString uapi (op AND atomicMask uapi)) ''Atomic''
      @ sizeSuffix uapi (op AND sizeMask uapi)"
proof -
  have ls: "isLoadOrStore (Class op)"
    using assms(1) by (simp add: pred_defs)
  have a: "AtomicOp uapi op = op AND atomicMask uapi"
    using assms by (simp add: AtomicOp_def)
  have c: "TrimSuffix (ClassString StXClass) ''Class'' = ''StX''"
    by (simp add: ClassString_def nameOf_def classNames_def class_defs TrimSuffix_def
        suffix_to_prefix)
  have m: "TrimSuffix (ModeString uapi (AtomicMode uapi)) ''Mode'' = ''Atomic''"
    by (simp add: ModeString_def nameOf_def uapi_names uapi_values TrimSuffix_def
        suffix_to_prefix)
  show ?thesis
    using ls atomic_field_not_sentinel [of op]
    by (simp add: String_def Let_def assms a c m Size_def)
qed

lemma sizeSuffix_cases:
  "sizeSuffix uapi sz \<in> {''DW'', ''W'', ''H'', ''B'', []}"
  by (simp add: sizeSuffix_def)

text \<open>With a named atomic operation: ten names and five suffixes.\<close>

lemma named_atomic_strings:
  assumes "s \<in> {''AddAtomic'', ''AndAtomic'', ''OrAtomic'', ''XorAtomic'', ''FetchAdd'',
          ''FetchAnd'', ''FetchOr'', ''FetchXor'', ''Xchg'', ''CmpXchg''}"
    and "z \<in> {''DW'', ''W'', ''H'', ''B'', []}"
  shows "\<not> sublist ''Class'' (''StXAtomic'' @ TrimSuffix s ''Atomic'' @ z)
     \<and> \<not> sublist ''Source'' (''StXAtomic'' @ TrimSuffix s ''Atomic'' @ z)
     \<and> \<not> sublist ''Mode'' (''StXAtomic'' @ TrimSuffix s ''Atomic'' @ z)
     \<and> \<not> sublist ''Atomic'' (TrimSuffix s ''Atomic'' @ z)"
  using assms
  by (elim insertE emptyE) (simp_all add: TrimSuffix_def suffix_to_prefix sublist_code)

lemma atomic_name_cases:
  assumes "map_of (atomicNames uapi) a = Some s"
  shows "s \<in> {''AddAtomic'', ''AndAtomic'', ''OrAtomic'', ''XorAtomic'', ''FetchAdd'',
          ''FetchAnd'', ''FetchOr'', ''FetchXor'', ''Xchg'', ''CmpXchg''}"
proof -
  from assms have "(a, s) \<in> set (atomicNames uapi)"
    by (rule map_of_SomeD)
  then show ?thesis
    by (auto simp: uapi_names)
qed

text \<open>With any other value in the atomic field: \<^verbatim>\<open>AtomicOp(0x..)\<close>, in hexadecimal.\<close>

lemma digit_hex: "d < 16 \<Longrightarrow> digit d \<in> set ''0123456789abcdef''"
  unfolding digit_def by (rule nth_mem) simp

lemma hex_chars: "set (hex n) \<subseteq> set ''0123456789abcdef''"
proof (induction n rule: hex.induct)
  case (1 n)
  show ?case
  proof (cases "n < 16")
    case True
    then have "hex n = [digit n]"
      by (subst hex.simps) simp
    with True digit_hex [of n] show ?thesis
      by simp
  next
    case False
    then have "hex n = hex (n div 16) @ [digit (n mod 16)]"
      by (subst hex.simps) simp
    moreover have "digit (n mod 16) \<in> set ''0123456789abcdef''"
      by (rule digit_hex) simp
    ultimately show ?thesis
      using 1 [OF False] by simp
  qed
qed

lemma unnamed_atomic_strings:
  assumes h: "set h \<subseteq> set ''0123456789abcdef''"
    and z: "z \<in> {''DW'', ''W'', ''H'', ''B'', []}"
  shows "\<not> sublist ''Class'' (''StXAtomic'' @ (''AtomicOp(0x'' @ h @ '')'') @ z)
    \<and> \<not> sublist ''Source'' (''StXAtomic'' @ (''AtomicOp(0x'' @ h @ '')'') @ z)
    \<and> \<not> sublist ''Mode'' (''StXAtomic'' @ (''AtomicOp(0x'' @ h @ '')'') @ z)"
proof -
  let ?s = "''StXAtomic'' @ (''AtomicOp(0x'' @ h @ '')'') @ z"
  have hc: "CHR ''C'' \<notin> set h" "CHR ''u'' \<notin> set h" "CHR ''M'' \<notin> set h"
    using h by auto
  have zc: "CHR ''C'' \<notin> set z" "CHR ''u'' \<notin> set z" "CHR ''M'' \<notin> set z"
    using z by auto
  have C: "CHR ''C'' \<notin> set ?s" and u: "CHR ''u'' \<notin> set ?s" and M: "CHR ''M'' \<notin> set ?s"
    using hc zc by simp_all
  have "CHR ''C'' \<in> set ''Class''" "CHR ''u'' \<in> set ''Source''" "CHR ''M'' \<in> set ''Mode''"
    by simp_all
  then show ?thesis
    using C u M set_mono_sublist [of "''Class''" ?s] set_mono_sublist [of "''Source''" ?s]
      set_mono_sublist [of "''Mode''" ?s]
    by blast
qed

lemma fallback_not_trimmed: "TrimSuffix (xs @ '')'') ''Atomic'' = xs @ '')''"
  by (simp add: TrimSuffix_def suffix_to_prefix)

lemma atomic_store_unnamed:
  assumes c: "Class op = StXClass" and m: "Mode uapi op = AtomicMode uapi"
    and n: "map_of (atomicNames uapi) (op AND atomicMask uapi) = None"
  shows "\<not> sublist ''Class'' (String uapi op) \<and> \<not> sublist ''Source'' (String uapi op)
    \<and> \<not> sublist ''Mode'' (String uapi op)"
proof -
  let ?h = "hex (unat (op AND atomicMask uapi))"
  let ?z = "sizeSuffix uapi (op AND sizeMask uapi)"
  have "AtomicOpString uapi (op AND atomicMask uapi) = (''AtomicOp(0x'' @ ?h) @ '')''"
    using n by (simp add: AtomicOpString_def)
  then have "TrimSuffix (AtomicOpString uapi (op AND atomicMask uapi)) ''Atomic''
      = (''AtomicOp(0x'' @ ?h) @ '')''"
    by (simp only: fallback_not_trimmed)
  then have e: "String uapi op = ''StXAtomic'' @ (''AtomicOp(0x'' @ ?h @ '')'') @ ?z"
    by (simp add: atomic_store_String [OF c m])
  show ?thesis
    unfolding e by (rule unnamed_atomic_strings [OF hex_chars sizeSuffix_cases])
qed

lemma atomic_store_named:
  assumes c: "Class op = StXClass" and m: "Mode uapi op = AtomicMode uapi"
    and n: "map_of (atomicNames uapi) (op AND atomicMask uapi) = Some s"
  shows "\<not> sublist ''Class'' (String uapi op) \<and> \<not> sublist ''Source'' (String uapi op)
    \<and> \<not> sublist ''Mode'' (String uapi op)
    \<and> take 9 (String uapi op) = ''StXAtomic''
    \<and> \<not> sublist ''Atomic'' (drop 9 (String uapi op))"
proof -
  let ?z = "sizeSuffix uapi (op AND sizeMask uapi)"
  have "AtomicOpString uapi (op AND atomicMask uapi) = s"
    using n by (simp add: AtomicOpString_def)
  then have e: "String uapi op = ''StXAtomic'' @ TrimSuffix s ''Atomic'' @ ?z"
    by (simp only: atomic_store_String [OF c m])
  have t: "take 9 (''StXAtomic'' @ TrimSuffix s ''Atomic'' @ ?z) = ''StXAtomic''"
    and d: "drop 9 (''StXAtomic'' @ TrimSuffix s ''Atomic'' @ ?z) = TrimSuffix s ''Atomic'' @ ?z"
    by simp_all
  show ?thesis
    unfolding e t d
    using named_atomic_strings [OF atomic_name_cases [OF n] sizeSuffix_cases] by blast
qed

lemma mnemonic_clean_atomic_store:
  assumes c: "Class op = StXClass" and m: "Mode uapi op = AtomicMode uapi"
  shows "mnemonic_clean uapi op"
proof -
  let ?a = "op AND atomicMask uapi"
  have ls: "isLoadOrStore (Class op)"
    using c by (simp add: pred_defs)
  have a: "AtomicOp uapi op = ?a"
    using c m by (simp add: AtomicOp_def)
  have named: "map_of (modeNames uapi) (AtomicMode uapi) \<noteq> None"
    by (simp add: uapi_names uapi_values)
  have "sublist ''Atomic'' (''StX'' @ ''Atomic'' @ r)" for r
    by (rule sublist_appendI)
  then have at: "sublist ''Atomic'' (String uapi op)"
    by (simp add: atomic_store_String [OF c m])
  have 3: "sublist ''Atomic'' (String uapi op)
      \<longleftrightarrow> isLoadOrStore (Class op) \<and> Mode uapi op = AtomicMode uapi"
    using at ls m by blast
  show ?thesis
  proof (cases "map_of (atomicNames uapi) ?a")
    case None
    note u = atomic_store_unnamed [OF c m None]
    have 2: "sublist ''Mode'' (String uapi op)
        \<longleftrightarrow> isLoadOrStore (Class op) \<and> map_of (modeNames uapi) (Mode uapi op) = None"
      using u named unfolding m by blast
    have 4: "\<not> (Class op = StXClass \<and> Mode uapi op = AtomicMode uapi
        \<and> map_of (atomicNames uapi) (AtomicOp uapi op) \<noteq> None)"
      unfolding a using None by blast
    show ?thesis
      unfolding mnemonic_clean_def using u 2 3 4 by blast
  next
    case (Some s)
    note u = atomic_store_named [OF c m Some]
    have 2: "sublist ''Mode'' (String uapi op)
        \<longleftrightarrow> isLoadOrStore (Class op) \<and> map_of (modeNames uapi) (Mode uapi op) = None"
      using u named unfolding m by blast
    show ?thesis
      unfolding mnemonic_clean_def using u 2 3 by blast
  qed
qed

text \<open>
  C8, as stated, fails on two opcodes that \<^verbatim>\<open>bpfOpCode\<close> accepts. On the atomic
  store \<^verbatim>\<open>0xdb\<close> the mode name \<^verbatim>\<open>AtomicMode\<close> loses its suffix \<^verbatim>\<open>Mode\<close> and leaves
  \<^verbatim>\<open>Atomic\<close> in the mnemonic. On the load \<^verbatim>\<open>0xa0\<close> the mode bits have no name, and the
  mode prints as \<^verbatim>\<open>Mode(160)\<close>.
\<close>

theorem String_Atomic_counterexample:
  "valid 0xdb opCodeMask \<and> String uapi 0xdb = ''StXAtomicAddDW''
   \<and> sublist ''Atomic'' (String uapi 0xdb)
   \<and> valid 0xa0 opCodeMask \<and> String uapi 0xa0 = ''LdMode(160)W''
   \<and> sublist ''Mode'' (String uapi 0xa0)"
  by (simp add: eval_defs)

text \<open>
  C8, amended. The mnemonic is a function of the opcode alone. For every opcode
  that \<^verbatim>\<open>bpfOpCode\<close> accepts (confined to the low byte), and for every atomic store
  (class \<^verbatim>\<open>StXClass\<close>, atomic mode) confined to the low sixteen bits, whatever its
  atomic operation: the mnemonic never contains \<^verbatim>\<open>Class\<close> or \<^verbatim>\<open>Source\<close>; it contains
  \<^verbatim>\<open>Mode\<close> exactly when the opcode is a load or store whose mode bits have no name
  (the mode then prints as \<^verbatim>\<open>Mode(n)\<close>); it contains \<^verbatim>\<open>Atomic\<close> exactly when the
  opcode is a load or store in atomic mode, whose mode prints as \<^verbatim>\<open>Atomic\<close>; and
  on an atomic store with a named atomic operation it starts with \<^verbatim>\<open>StXAtomic\<close> and
  has no \<^verbatim>\<open>Atomic\<close> after that. The names are those of the kernel's encoding above.
\<close>

theorem String_facet_names:
  assumes "valid op opCodeMask
    \<or> (Class op = StXClass \<and> Mode uapi op = AtomicMode uapi \<and> valid op 0xffff)"
  shows "\<not> sublist ''Class'' (String uapi op) \<and> \<not> sublist ''Source'' (String uapi op)
    \<and> (sublist ''Mode'' (String uapi op)
         \<longleftrightarrow> isLoadOrStore (Class op) \<and> map_of (modeNames uapi) (Mode uapi op) = None)
    \<and> (sublist ''Atomic'' (String uapi op)
         \<longleftrightarrow> isLoadOrStore (Class op) \<and> Mode uapi op = AtomicMode uapi)
    \<and> (Class op = StXClass \<and> Mode uapi op = AtomicMode uapi
         \<and> map_of (atomicNames uapi) (AtomicOp uapi op) \<noteq> None \<longrightarrow>
           take 9 (String uapi op) = ''StXAtomic''
           \<and> \<not> sublist ''Atomic'' (drop 9 (String uapi op)))"
proof -
  from assms have "mnemonic_clean uapi op"
    using mnemonic_clean_valid mnemonic_clean_atomic_store by blast
  then show ?thesis
    unfolding mnemonic_clean_def .
qed

text \<open>
  The 32-bit load from memory \<^verbatim>\<open>0x61\<close> renders as \<^verbatim>\<open>LdXMemW\<close>; the load \<^verbatim>\<open>0xa0\<close>,
  whose mode has no name, as \<^verbatim>\<open>LdMode(160)W\<close>; the atomic compare-and-exchange
  \<^verbatim>\<open>0xf1db\<close> as \<^verbatim>\<open>StXAtomicCmpXchgDW\<close>; the atomic store \<^verbatim>\<open>0x12db\<close>, whose atomic
  operation has no name, as \<^verbatim>\<open>StXAtomicAtomicOp(0x1200)DW\<close>.
\<close>

theorem String_facet_names_witness:
  "valid 0x61 opCodeMask \<and> String uapi 0x61 = ''LdXMemW''
   \<and> \<not> sublist ''Mode'' (String uapi 0x61) \<and> \<not> sublist ''Atomic'' (String uapi 0x61)
   \<and> valid 0xa0 opCodeMask \<and> isLoadOrStore (Class 0xa0)
   \<and> map_of (modeNames uapi) (Mode uapi 0xa0) = None
   \<and> sublist ''Mode'' (String uapi 0xa0)
   \<and> Class 0xf1db = StXClass \<and> Mode uapi 0xf1db = AtomicMode uapi \<and> valid 0xf1db 0xffff
   \<and> map_of (atomicNames uapi) (AtomicOp uapi 0xf1db) \<noteq> None
   \<and> String uapi 0xf1db = ''StXAtomicCmpXchgDW''
   \<and> sublist ''Atomic'' (String uapi 0xf1db)
   \<and> \<not> sublist ''Atomic'' (drop 9 (String uapi 0xf1db))
   \<and> Class 0x12db = StXClass \<and> Mode uapi 0x12db = AtomicMode uapi \<and> valid 0x12db 0xffff
   \<and> String uapi 0x12db = ''StXAtomicAtomicOp(0x1200)DW''
   \<and> \<not> sublist ''Class'' (String uapi 0x12db)"
proof -
  have v1: "valid 0x61 opCodeMask" and v2: "valid 0xa0 opCodeMask"
    by (simp_all add: valid_def opCodeMask_def)
  have v3: "Class 0xf1db = StXClass" "Mode uapi 0xf1db = AtomicMode uapi"
    "valid 0xf1db 0xffff"
    and v4: "Class 0x12db = StXClass" "Mode uapi 0x12db = AtomicMode uapi"
    "valid 0x12db 0xffff"
    by (simp_all add: eval_defs)
  have s: "String uapi 0x61 = ''LdXMemW''" "String uapi 0xf1db = ''StXAtomicCmpXchgDW''"
    "String uapi 0x12db = ''StXAtomicAtomicOp(0x1200)DW''"
    by (simp_all add: eval_defs)
  have f: "isLoadOrStore (Class 0xa0)" "map_of (modeNames uapi) (Mode uapi 0xa0) = None"
    "map_of (atomicNames uapi) (AtomicOp uapi 0xf1db) \<noteq> None"
    "Mode uapi 0x61 \<noteq> AtomicMode uapi"
    "map_of (modeNames uapi) (Mode uapi 0x61) \<noteq> None"
    by (simp_all add: eval_defs)
  note t1 = String_facet_names [of "0x61", OF disjI1 [OF v1]]
    and t2 = String_facet_names [of "0xa0", OF disjI1 [OF v2]]
    and t3 = String_facet_names [of "0xf1db", OF disjI2 [OF conjI [OF v3(1) conjI [OF v3(2,3)]]]]
    and t4 = String_facet_names [of "0x12db", OF disjI2 [OF conjI [OF v4(1) conjI [OF v4(2,3)]]]]
  have l: "isLoadOrStore (Class 0xf1db)"
    using v3(1) by (simp add: pred_defs)
  have a1: "\<not> sublist ''Mode'' (String uapi 0x61)"
    using t1 f(5) by blast
  have a2: "\<not> sublist ''Atomic'' (String uapi 0x61)"
    using t1 f(4) by blast
  have a3: "sublist ''Mode'' (String uapi 0xa0)"
    using t2 f(1,2) by blast
  have a4: "sublist ''Atomic'' (String uapi 0xf1db)"
    using t3 l v3(2) by blast
  have a5: "\<not> sublist ''Atomic'' (drop 9 (String uapi 0xf1db))"
    using t3 v3 f(3) by blast
  have a6: "\<not> sublist ''Class'' (String uapi 0x12db)"
    using t4 by blast
  show ?thesis
    by (intro conjI v1 v2 v3 v4 s f a1 a2 a3 a4 a5 a6)
qed

section \<open>Setters applied to the invalid opcode\<close>

text \<open>
  Whatever a mask is, as long as it is not empty, some value that fits it turns
  \<^verbatim>\<open>0xffff\<close> into a value that is neither \<^verbatim>\<open>0xffff\<close> nor confined to the low
  byte.
\<close>

lemma field_of_all_ones_bits:
  fixes m ones low b8 :: OpCode
  assumes "m \<noteq> 0"
    and F: "\<And>n. bit ones n \<longleftrightarrow> n < 16"
    and B: "\<And>n. bit low n \<longleftrightarrow> n < 8"
    and E: "\<And>n. bit b8 n \<longleftrightarrow> n = 8"
  shows "\<exists>a. a AND NOT m = 0 \<and> (ones AND NOT m) OR a \<noteq> ones
    \<and> ((ones AND NOT m) OR a) AND NOT low \<noteq> 0"
proof -
  have L: "bit w n \<Longrightarrow> n < 32" for w :: OpCode and n
    by (auto dest: bit_imp_le_length)
  have R: "bit ((ones AND NOT m) OR a) n \<longleftrightarrow> (n < 16 \<and> \<not> bit m n) \<or> bit a n"
    for a n
    using L [of a n] by (auto simp: bit_or_iff bit_and_iff bit_not_iff F)
  have H: "bit (((ones AND NOT m) OR a) AND NOT low) n
      \<longleftrightarrow> ((n < 16 \<and> \<not> bit m n) \<or> bit a n) \<and> 8 \<le> n"
    for a n
    using L [of a n] by (auto simp: bit_and_iff bit_not_iff R B)
  have Z: "\<not> bit (0 :: OpCode) n" for n
    by simp
  consider (some) b c where "8 \<le> b" "b < 16" "\<not> bit m b" "c < 16" "bit m c"
    | (above) "\<forall>c<16. \<not> bit m c"
    | (whole) "\<forall>b. 8 \<le> b \<and> b < 16 \<longrightarrow> bit m b"
    by blast
  then show ?thesis
  proof cases
    case some
    have "bit ((ones AND NOT m) OR 0) c \<noteq> bit ones c"
      using some unfolding R F by simp
    then have 1: "(ones AND NOT m) OR 0 \<noteq> ones"
      by metis
    have "bit (((ones AND NOT m) OR 0) AND NOT low) b"
      using some unfolding H by simp
    then have 2: "((ones AND NOT m) OR 0) AND NOT low \<noteq> 0"
      using Z by metis
    from 1 2 show ?thesis
      by (intro exI [of _ 0]) simp
  next
    case above
    from assms(1) obtain c where c: "bit m c"
      using Z by (metis bit_eqI)
    with above have c16: "16 \<le> c"
      by (meson not_le)
    have "bit ((ones AND NOT m) OR m) c \<noteq> bit ones c"
      using c c16 unfolding R F by simp
    then have 1: "(ones AND NOT m) OR m \<noteq> ones"
      by metis
    have "bit (((ones AND NOT m) OR m) AND NOT low) c"
      using c c16 unfolding H by simp
    then have 2: "((ones AND NOT m) OR m) AND NOT low \<noteq> 0"
      using Z by metis
    from 1 2 show ?thesis
      by (intro exI [of _ m]) simp
  next
    case whole
    have "bit (b8 AND NOT m) n = bit (0 :: OpCode) n" for n
      using whole by (auto simp: bit_and_iff bit_not_iff E)
    then have 0: "b8 AND NOT m = 0"
      by (intro bit_eqI) simp
    have "bit ((ones AND NOT m) OR b8) 9 \<noteq> bit ones 9"
      using whole unfolding R F E by simp
    then have 1: "(ones AND NOT m) OR b8 \<noteq> ones"
      by metis
    have "bit (((ones AND NOT m) OR b8) AND NOT low) 8"
      unfolding H E by simp
    then have 2: "((ones AND NOT m) OR b8) AND NOT low \<noteq> 0"
      using Z by metis
    from 0 1 2 show ?thesis
      by (intro exI [of _ b8]) simp
  qed
qed

lemma field_of_all_ones:
  fixes m :: OpCode
  assumes "m \<noteq> 0"
  shows "\<exists>a. a AND NOT m = 0 \<and> (0xffff AND NOT m) OR a \<noteq> 0xffff
    \<and> ((0xffff AND NOT m) OR a) AND NOT 0xff \<noteq> 0"
proof (rule field_of_all_ones_bits [OF assms])
  fix n
  have e: "(0xffff :: OpCode) = mask 16" by (simp add: mask_eq_exp_minus_1)
  show "bit (0xffff :: OpCode) n \<longleftrightarrow> n < 16"
    unfolding e by (auto simp: bit_mask_iff)
next
  fix n
  have e: "(0xff :: OpCode) = mask 8" by (simp add: mask_eq_exp_minus_1)
  show "bit (0xff :: OpCode) n \<longleftrightarrow> n < 8"
    unfolding e by (auto simp: bit_mask_iff)
next
  fix n
  have e: "(0x100 :: OpCode) = 2 ^ 8" by simp
  show "bit (0x100 :: OpCode) n \<longleftrightarrow> n = 8"
    unfolding e by (simp only: bit_exp_iff possible_bit_word) auto
qed

text \<open>
  C9. \<^verbatim>\<open>InvalidOpCode\<close> is not absorbing. Its low three bits decode to
  \<^verbatim>\<open>ALU64Class\<close>, so its ALU operation does not read as \<^verbatim>\<open>InvalidALUOp\<close>, and for
  some arguments that fit the mask \<^verbatim>\<open>SetALUOp\<close> and \<^verbatim>\<open>SetSource\<close> turn it into a
  value that is neither \<^verbatim>\<open>InvalidOpCode\<close> nor confined to the low byte. Assumed of
  the constants declared outside this file: the sentinel \<^verbatim>\<open>InvalidALUOp\<close> does not
  fit the ALU mask, and neither mask is empty.
\<close>

theorem InvalidOpCode_not_absorbing:
  assumes "\<not> valid (InvalidALUOp K) (aluMask K)"
    and "aluMask K \<noteq> 0" and "sourceMask K \<noteq> 0"
  shows "Class InvalidOpCode = ALU64Class
    \<and> ALUOp K InvalidOpCode \<noteq> InvalidALUOp K
    \<and> (\<exists>a. valid a (aluMask K) \<and> SetALUOp K InvalidOpCode a \<noteq> InvalidOpCode
          \<and> \<not> valid (SetALUOp K InvalidOpCode a) opCodeMask)
    \<and> (\<exists>s. valid s (sourceMask K) \<and> SetSource K InvalidOpCode s \<noteq> InvalidOpCode
          \<and> \<not> valid (SetSource K InvalidOpCode s) opCodeMask)"
proof -
  have c: "Class InvalidOpCode = ALU64Class"
    by (simp add: Class_def classMask_def InvalidOpCode_def ALU64Class_def)
  then have p: "IsALU (Class InvalidOpCode)" "isJumpOrALU (Class InvalidOpCode)"
    by (simp_all add: pred_defs)
  have "ALUOp K InvalidOpCode = InvalidOpCode AND aluMask K"
    using p by (simp add: ALUOp_def)
  then have g: "ALUOp K InvalidOpCode \<noteq> InvalidALUOp K"
    using assms(1) and_mask_valid [of InvalidOpCode "aluMask K"] by auto
  from field_of_all_ones [OF assms(2)] obtain a where
    "valid a (aluMask K)" "SetALUOp K InvalidOpCode a \<noteq> InvalidOpCode"
    "\<not> valid (SetALUOp K InvalidOpCode a) opCodeMask"
    using p by (auto simp: SetALUOp_def valid_def InvalidOpCode_def opCodeMask_def)
  moreover from field_of_all_ones [OF assms(3)] obtain s where
    "valid s (sourceMask K)" "SetSource K InvalidOpCode s \<noteq> InvalidOpCode"
    "\<not> valid (SetSource K InvalidOpCode s) opCodeMask"
    using p by (auto simp: SetSource_def valid_def InvalidOpCode_def opCodeMask_def)
  ultimately show ?thesis
    using c g by blast
qed

text \<open>
  In the kernel's encoding: setting the ALU operation \<^verbatim>\<open>Add\<close> (0) on \<^verbatim>\<open>0xffff\<close> gives
  \<^verbatim>\<open>0xc00f\<close>, setting the source \<^verbatim>\<open>ImmSource\<close> (0) gives \<^verbatim>\<open>0xfff7\<close>.
\<close>

theorem InvalidOpCode_not_absorbing_witness:
  "\<not> valid (InvalidALUOp uapi) (aluMask uapi) \<and> aluMask uapi \<noteq> 0 \<and> sourceMask uapi \<noteq> 0
   \<and> Class InvalidOpCode = ALU64Class
   \<and> ALUOp uapi InvalidOpCode = 0x3ff0 \<and> ALUOp uapi InvalidOpCode \<noteq> InvalidALUOp uapi
   \<and> valid 0 (aluMask uapi) \<and> SetALUOp uapi InvalidOpCode 0 = 0xc00f
   \<and> \<not> valid (SetALUOp uapi InvalidOpCode 0) opCodeMask
   \<and> valid 0 (sourceMask uapi) \<and> SetSource uapi InvalidOpCode 0 = 0xfff7
   \<and> \<not> valid (SetSource uapi InvalidOpCode 0) opCodeMask"
proof -
  have h: "\<not> valid (InvalidALUOp uapi) (aluMask uapi)" "aluMask uapi \<noteq> 0"
    "sourceMask uapi \<noteq> 0"
    by (simp_all add: valid_def uapi_masks uapi_values)
  have e: "ALUOp uapi InvalidOpCode = 0x3ff0" "SetALUOp uapi InvalidOpCode 0 = 0xc00f"
    "SetSource uapi InvalidOpCode 0 = 0xfff7"
    by (simp_all add: ALUOp_def SetALUOp_def SetSource_def valid_def InvalidOpCode_def
        Class_def classMask_def pred_defs class_defs uapi_masks uapi_values)
  show ?thesis
    using h InvalidOpCode_not_absorbing [OF h]
    by (simp add: e valid_def opCodeMask_def uapi_masks uapi_values)
qed

section \<open>The class of an opcode\<close>



end
